theory Spec2Isabelle
  imports Main "HOL-Library.Sublist"
begin

section \<open>JavaScript string operations used by the viewer script\<close>

text \<open>
  Strings are lists of code units. The 256 values of \<open>char\<close> stand for 256 of the code
  units of a JavaScript string: the characters with the codes 1 and 2 stand for the
  code units D83D and DCAC, the surrogate pair of the one character beyond Latin-1
  that the script itself writes into the document (the comment icon), and every
  other character stands for the code unit with its own code.
  \<open>String.prototype.trim\<close> strips white space and line terminators from both ends;
  among these code units they are TAB, LF, VT, FF, CR, SPACE and NBSP.
\<close>

definition isWhiteSpace :: "char \<Rightarrow> bool" where
  "isWhiteSpace c = ((of_char c :: nat) \<in> {9, 10, 11, 12, 13, 32, 160})"

definition jsTrim :: "string \<Rightarrow> string" where
  "jsTrim s = rev (dropWhile isWhiteSpace (rev (dropWhile isWhiteSpace s)))"

text \<open>
  \<open>s.indexOf(t)\<close>: the least position at which \<open>t\<close> occurs in \<open>s\<close>; \<open>None\<close> stands
  for the result \<open>-1\<close>. The empty string occurs at position 0 of every string.
\<close>

fun indexOf :: "string \<Rightarrow> string \<Rightarrow> nat option" where
  "indexOf [] t = (if t = [] then Some 0 else None)"
| "indexOf (c # cs) t =
     (if prefix t (c # cs) then Some 0 else map_option Suc (indexOf cs t))"

text \<open>
  \<open>s.slice(start)\<close> and \<open>s.slice(start, end)\<close>: a negative index counts from the end of
  the string, every index is clamped to \<open>0..length\<close>, and an empty interval gives the
  empty string. \<open>s.substring(0, n)\<close> for a non-negative \<open>n\<close> is \<open>take n s\<close>.
\<close>

definition relIndex :: "string \<Rightarrow> int \<Rightarrow> nat" where
  "relIndex s i =
     (let len = int (length s)
      in nat (if i < 0 then max (len + i) 0 else min i len))"

definition jsSliceFrom :: "string \<Rightarrow> int \<Rightarrow> string" where
  "jsSliceFrom s start = drop (relIndex s start) s"

definition jsSlice :: "string \<Rightarrow> int \<Rightarrow> int \<Rightarrow> string" where
  "jsSlice s start fin =
     (let from = relIndex s start; to = relIndex s fin
      in take (to - from) (drop from s))"

section \<open>The text layer of a rendered page\<close>

text \<open>
  A DOM subtree: a text node with its data, or an element with its class name and its
  children. The first field of an element is the handle under which one of the script's
  lists (\<open>highlights\<close>, \<open>annotations\<close>, \<open>comments\<close>) refers to it in its \<open>element\<close>
  field; elements of the PDF renderer and clones made by the DOM carry no handle.
  Style and data attributes are written by the script and never read back, so they are
  left out.
\<close>

datatype node = Text string | Elem "nat option" string "node list"

text \<open>
  The text nodes below a list of siblings in document order: what a \<open>TreeWalker\<close> with
  \<open>NodeFilter.SHOW_TEXT\<close> visits.
\<close>

fun textNodes :: "node list \<Rightarrow> string list" where
  "textNodes [] = []"
| "textNodes (Text s # ns) = s # textNodes ns"
| "textNodes (Elem r c cs # ns) = textNodes cs @ textNodes ns"

definition textContent :: "node list \<Rightarrow> string" where
  "textContent ns = concat (textNodes ns)"

section \<open>Ranges and the DOM operations on them\<close>

text \<open>
  A boundary point is a container and an offset. The container is named by its path
  from the text layer (the empty path is the text-layer element itself, \<open>i # p\<close> is the
  path \<open>p\<close> below the \<open>i\<close>-th child). The offset counts code units in a text node and
  children in an element.
\<close>

record range =
  startContainer :: "nat list"
  startOffset :: nat
  endContainer :: "nat list"
  endOffset :: nat

fun nodeAt :: "node \<Rightarrow> nat list \<Rightarrow> node option" where
  "nodeAt n [] = Some n"
| "nodeAt (Text s) (i # p) = None"
| "nodeAt (Elem r c cs) (i # p) = (if i < length cs then nodeAt (cs ! i) p else None)"

text \<open>
  Cutting a list of siblings at a boundary point. Every element on the path to the
  point is cut in two; the half named by the flag stays the original element (it keeps
  its handle), the other half is the clone the DOM makes. \<open>None\<close> is the DOM exception
  for a point that does not exist.
\<close>

fun splitAt :: "bool \<Rightarrow> node list \<Rightarrow> nat list \<Rightarrow> nat \<Rightarrow> (node list \<times> node list) option" where
  "splitAt keepLeft ns [] k =
     (if k \<le> length ns then Some (take k ns, drop k ns) else None)"
| "splitAt keepLeft ns (i # p) k =
     (if i < length ns then
        (case ns ! i of
           Text s \<Rightarrow>
             (if p = [] \<and> k \<le> length s
              then Some (take i ns @ [Text (take k s)], Text (drop k s) # drop (Suc i) ns)
              else None)
         | Elem r c cs \<Rightarrow>
             (case splitAt keepLeft cs p k of
                None \<Rightarrow> None
              | Some (l, rt) \<Rightarrow>
                  Some (take i ns @ [Elem (if keepLeft then r else None) c l],
                        Elem (if keepLeft then None else r) c rt # drop (Suc i) ns)))
      else None)"

text \<open>
  A boundary point that partially selects no element among the siblings \<open>ns\<close>: it lies
  between two of them, or inside a text node that is one of them.
\<close>

fun textPoint :: "node list \<Rightarrow> nat list \<Rightarrow> bool" where
  "textPoint ns [] = True"
| "textPoint ns [i] = (i < length ns \<and> (case ns ! i of Text s \<Rightarrow> True | Elem r c cs \<Rightarrow> False))"
| "textPoint ns (i # j # p) = False"

text \<open>
  Moving the contents of a range into a new element \<open>mk contents\<close> inserted at the start
  of the range, below the common ancestor of the two boundary points. The result is the
  new list of siblings together with the contents that were moved.
  With \<open>strict\<close> this is \<open>range.surroundContents(span)\<close>, which throws when the range
  partially selects an element; without it, it is the sequence
  \<open>range.extractContents(); span.appendChild(contents); range.insertNode(span)\<close>.
  The contents of a collapsed range are empty.
\<close>

definition wrapHere ::
  "(node list \<Rightarrow> node) \<Rightarrow> bool \<Rightarrow> node list \<Rightarrow> nat list \<Rightarrow> nat \<Rightarrow> nat list \<Rightarrow> nat
     \<Rightarrow> (node list \<times> node list) option" where
  "wrapHere mk strict ns ps ks pe ke =
     (if strict \<and> \<not> (textPoint ns ps \<and> textPoint ns pe) then None
      else (case splitAt False ns pe ke of
              None \<Rightarrow> None
            | Some (l, rt) \<Rightarrow>
                (case splitAt True l ps ks of
                   None \<Rightarrow> None
                 | Some (a, f) \<Rightarrow>
                     (let contents = (if ps = pe \<and> ks = ke then [] else f)
                      in Some (a @ [mk contents] @ rt, contents)))))"

fun wrapRange ::
  "(node list \<Rightarrow> node) \<Rightarrow> bool \<Rightarrow> node list \<Rightarrow> nat list \<Rightarrow> nat \<Rightarrow> nat list \<Rightarrow> nat
     \<Rightarrow> (node list \<times> node list) option" where
  "wrapRange mk strict ns (i # p) ks (j # q) ke =
     (if i = j \<and> i < length ns then
        (case ns ! i of
           Text s \<Rightarrow> wrapHere mk strict ns (i # p) ks (j # q) ke
         | Elem r c cs \<Rightarrow>
             map_option (\<lambda>(cs', contents). (ns[i := Elem r c cs'], contents))
               (wrapRange mk strict cs p ks q ke))
      else wrapHere mk strict ns (i # p) ks (j # q) ke)"
| "wrapRange mk strict ns ps ks pe ke = wrapHere mk strict ns ps ks pe ke"

definition surroundContents ::
  "(node list \<Rightarrow> node) \<Rightarrow> node list \<Rightarrow> range \<Rightarrow> (node list \<times> node list) option" where
  "surroundContents mk ns r =
     wrapRange mk True ns (startContainer r) (startOffset r) (endContainer r) (endOffset r)"

definition extractAndInsert ::
  "(node list \<Rightarrow> node) \<Rightarrow> node list \<Rightarrow> range \<Rightarrow> (node list \<times> node list) option" where
  "extractAndInsert mk ns r =
     wrapRange mk False ns (startContainer r) (startOffset r) (endContainer r) (endOffset r)"

section \<open>Anchors, list entries and messages\<close>

text \<open>
  The persisted shape of a text-bound anchor (\<open>HighlightData\<close>, \<open>AnnotationData\<close>,
  \<open>CommentData\<close> of the host) and the entries of the script's in-memory lists, which add
  the reference to the live marker element. The field \<open>text\<close> of the source is called
  \<open>atext\<close> here.
\<close>

record anchor =
  atext :: string
  color :: string
  page :: nat
  textBefore :: string
  textAfter :: string

record HighlightData = anchor +
  timestamp :: nat

datatype annotationType = Underline | Strikethrough | Squiggly

record AnnotationData = HighlightData +
  atype :: annotationType

record CommentData = HighlightData +
  comment :: string
  author :: string

record highlight = anchor +
  element :: nat

record annotation = AnnotationData +
  aelement :: nat

record commentEntry = CommentData +
  celement :: nat
  icon :: nat

record StickyNoteData =
  content :: string
  ncolor :: string
  npage :: nat
  noteX :: int
  noteY :: int
  ntimestamp :: nat

text \<open>An entry of the script's list of sticky notes refers to the note's element.\<close>

record stickyNote = StickyNoteData +
  nelement :: nat

text \<open>
  A drawing: its shape, style and page. The shape's coordinates are carried along as
  they are; none of the functions below reads them.
\<close>

datatype drawingType = Rectangle | Circle | Arrow | Freehand

record DrawingData =
  dtype :: drawingType
  dcolor :: string
  strokeWidth :: nat
  dpage :: nat
  dtimestamp :: nat
  geometry :: "int list"

record summaryItem =
  sumIndex :: nat
  sumColor :: string
  sumText :: string

record commentSummary =
  csIndex :: nat
  csText :: string
  csComment :: string
  csPage :: nat
  csColor :: string
  csAuthor :: string
  csTimestamp :: nat

text \<open>The messages the script posts to the host (\<open>vscode.postMessage\<close>).\<close>

datatype message =
    NoSelection
  | HighlightAdded string nat HighlightData
  | HighlightError string
  | HighlightsCleared nat
  | HighlightsSummary "summaryItem list" nat
  | HighlightRemovedWithData int
  | HighlightRemoved nat
  | HighlightsRestored nat
  | RequestStoredHighlights
  | AnnotationAdded annotationType string nat AnnotationData
  | AnnotationError string
  | CommentAdded string nat CommentData
  | CommentError string
  | CommentDeleted nat
  | CommentsList "commentSummary list" nat
  | StickyNoteAdded nat StickyNoteData
  | StickyNoteDeleted nat
  | DrawingAdded nat DrawingData
  | DrawingDeleted nat
  | DrawingsCleared nat

section \<open>The state of the viewer script\<close>

text \<open>
  \<open>pages\<close> holds, for page \<open>p\<close> at position \<open>p - 1\<close>, the children of the page's text
  layer, or \<open>None\<close> while the renderer has not built it; its length is the document's page
  count. \<open>canvas\<close> is what is painted on the drawing overlay (\<open>None\<close>: no overlay was
  created yet). \<open>nextHandle\<close> is the next unused element handle, \<open>outbox\<close> the messages
  posted so far, oldest first. \<open>detached\<close> holds the subtrees that have left the document
  while an entry of one of the lists may still refer to an element in them, each given
  by its root, which has no parent node: for instance a text layer that the renderer
  has replaced by a fresh one. \<open>noteElements\<close> holds the handles of the sticky-note
  elements that are children of a page element.
\<close>

record view =
  pages :: "node list option list"
  currentPageNumber :: nat
  highlights :: "highlight list"
  annotations :: "annotation list"
  comments :: "commentEntry list"
  stickyNotes :: "stickyNote list"
  drawingAnnotations :: "DrawingData list"
  currentHighlightIndex :: int
  currentHighlightColor :: string
  canvas :: "DrawingData list option"
  nextHandle :: nat
  outbox :: "message list"
  detached :: "node list"
  noteElements :: "nat list"

definition postMessage :: "message \<Rightarrow> view \<Rightarrow> view" where
  "postMessage m s = s\<lparr>outbox := outbox s @ [m]\<rparr>"

text \<open>
  \<open>document.querySelector('.page[data-page-number="p"] .textLayer')\<close>: \<open>None\<close> is \<open>null\<close>.
\<close>

definition textLayer :: "view \<Rightarrow> nat \<Rightarrow> node list option" where
  "textLayer s p = (if 1 \<le> p \<and> p \<le> length (pages s) then pages s ! (p - 1) else None)"

definition setTextLayer :: "nat \<Rightarrow> node list \<Rightarrow> view \<Rightarrow> view" where
  "setTextLayer p l s = s\<lparr>pages := (pages s)[p - 1 := Some l]\<rparr>"

text \<open>
  The setter of \<open>PDFViewerApplication.pdfViewer.currentPageNumber\<close> belongs to the PDF
  renderer: it ignores a page number outside \<open>1..pagesCount\<close>.
\<close>

definition setCurrentPageNumber :: "nat \<Rightarrow> view \<Rightarrow> view" where
  "setCurrentPageNumber p s =
     (if 1 \<le> p \<and> p \<le> length (pages s) then s\<lparr>currentPageNumber := p\<rparr> else s)"

text \<open>
  \<open>span.parentNode\<close> as a truth value: the element with handle \<open>h\<close> is a child of some
  node. That is so when it lies in a text layer of the document, at any depth (the
  children of a text layer have the layer as their parent), or strictly below the root
  of a detached subtree. An element that was taken out by \<open>removeChild\<close> occurs nowhere.
\<close>

fun hasHandle :: "nat \<Rightarrow> node list \<Rightarrow> bool" where
  "hasHandle h [] = False"
| "hasHandle h (Text s # ns) = hasHandle h ns"
| "hasHandle h (Elem r c cs # ns) = (r = Some h \<or> hasHandle h cs \<or> hasHandle h ns)"

fun below :: "nat \<Rightarrow> node \<Rightarrow> bool" where
  "below h (Text s) = False"
| "below h (Elem r c cs) = hasHandle h cs"

definition hasParentNode :: "view \<Rightarrow> nat \<Rightarrow> bool" where
  "hasParentNode s h =
     (list_ex (\<lambda>l. case l of None \<Rightarrow> False | Some ns \<Rightarrow> hasHandle h ns) (pages s)
      \<or> list_ex (below h) (detached s))"

text \<open>
  \<open>while (span.firstChild) parent.insertBefore(span.firstChild, span);
  parent.removeChild(span)\<close>: the element goes, its children take its place. The
  script runs this only for an element that has a parent node, wherever that parent is.
\<close>

fun unwrap :: "nat \<Rightarrow> node list \<Rightarrow> node list" where
  "unwrap h [] = []"
| "unwrap h (Text s # ns) = Text s # unwrap h ns"
| "unwrap h (Elem r c cs # ns) =
     (if r = Some h then unwrap h cs @ unwrap h ns else Elem r c (unwrap h cs) # unwrap h ns)"

fun unwrapBelow :: "nat \<Rightarrow> node \<Rightarrow> node" where
  "unwrapBelow h (Text s) = Text s"
| "unwrapBelow h (Elem r c cs) = Elem r c (unwrap h cs)"

definition unwrapElement :: "nat \<Rightarrow> view \<Rightarrow> view" where
  "unwrapElement h s =
     (if hasParentNode s h
      then s\<lparr>pages := map (map_option (unwrap h)) (pages s),
             detached := map (unwrapBelow h) (detached s)\<rparr>
      else s)"

section \<open>The re-anchoring engine\<close>

text \<open>
  The search loop shared by \<open>restoreSingleHighlight\<close>, \<open>restoreSingleAnnotation\<close> and
  \<open>restoreSingleComment\<close>: a \<open>TreeWalker\<close> visits the text nodes of the layer in document
  order; in the first node whose data contains the anchor's text (\<open>indexOf\<close>) a range
  over that occurrence is surrounded by the marker, and the function returns. When
  \<open>surroundContents\<close> throws, the error is logged and the walk goes on with the next
  node. \<open>None\<close>: the walk ended without a marker.
\<close>

fun restoreWalk :: "(node list \<Rightarrow> node) \<Rightarrow> string \<Rightarrow> node list \<Rightarrow> node list option" where
  "restoreWalk mk t [] = None"
| "restoreWalk mk t (Text s # ns) =
     (case indexOf s t of
        None \<Rightarrow> map_option ((#) (Text s)) (restoreWalk mk t ns)
      | Some i \<Rightarrow>
          (case surroundContents mk [Text s]
                  \<lparr>startContainer = [0], startOffset = i,
                   endContainer = [0], endOffset = i + length t\<rparr> of
             Some (wrapped, contents) \<Rightarrow> Some (wrapped @ ns)
           | None \<Rightarrow> map_option ((#) (Text s)) (restoreWalk mk t ns)))"
| "restoreWalk mk t (Elem r c cs # ns) =
     (case restoreWalk mk t cs of
        Some cs' \<Rightarrow> Some (Elem r c cs' # ns)
      | None \<Rightarrow> map_option ((#) (Elem r c cs)) (restoreWalk mk t ns))"

definition restoredHighlightSpan :: "nat \<Rightarrow> node list \<Rightarrow> node" where
  "restoredHighlightSpan h cs = Elem (Some h) ''pdf-highlight restored-highlight'' cs"

definition annotationClass :: "annotationType \<Rightarrow> string" where
  "annotationClass ty =
     (case ty of Underline \<Rightarrow> ''underline'' | Strikethrough \<Rightarrow> ''strikethrough''
      | Squiggly \<Rightarrow> ''squiggly'')"

definition restoredAnnotationSpan :: "annotationType \<Rightarrow> nat \<Rightarrow> node list \<Rightarrow> node" where
  "restoredAnnotationSpan ty h cs =
     Elem (Some h) (''pdf-annotation pdf-'' @ annotationClass ty @ '' restored-annotation'') cs"

text \<open>
  \<open>restoreSingleHighlight\<close> runs in two steps: at once it moves the viewer to the anchor's
  page, and half a second later (\<open>setTimeout\<close>) it searches the page's text layer.
  The search reads the anchor's \<open>page\<close>, not the current page number.
\<close>

definition restoreSingleHighlight :: "HighlightData \<Rightarrow> view \<Rightarrow> view" where
  "restoreSingleHighlight d s =
     (if page d \<noteq> 0 \<and> currentPageNumber s \<noteq> page d
      then setCurrentPageNumber (page d) s else s)"

definition restoreSingleHighlightSearch :: "HighlightData \<Rightarrow> view \<Rightarrow> view" where
  "restoreSingleHighlightSearch d s =
     (case textLayer s (page d) of
        None \<Rightarrow> s
      | Some layer \<Rightarrow>
          (case restoreWalk (restoredHighlightSpan (nextHandle s)) (atext d) layer of
             None \<Rightarrow> s
           | Some layer' \<Rightarrow>
               (setTextLayer (page d) layer' s)
                 \<lparr>highlights := highlights s @
                    [\<lparr>atext = atext d, color = color d, page = page d,
                      textBefore = textBefore d, textAfter = textAfter d,
                      element = nextHandle s\<rparr>],
                  nextHandle := Suc (nextHandle s)\<rparr>))"

text \<open>
  \<open>restoreHighlights\<close>: nothing for an empty list; otherwise, one second later, the first
  step of every anchor in list order and the \<open>highlightsRestored\<close> message if the list of
  highlights is not empty at that moment; the searches, all scheduled with the same
  delay, then run in list order.
\<close>

definition restoreHighlights :: "HighlightData list \<Rightarrow> view \<Rightarrow> view" where
  "restoreHighlights savedHighlights s =
     (if savedHighlights = [] then s
      else
        (let s1 = fold restoreSingleHighlight savedHighlights s;
             s2 = (if highlights s1 \<noteq> []
                   then postMessage (HighlightsRestored (length (highlights s1))) s1 else s1)
         in fold restoreSingleHighlightSearch savedHighlights s2))"

definition restoreSingleAnnotation :: "AnnotationData \<Rightarrow> view \<Rightarrow> view" where
  "restoreSingleAnnotation d s =
     (case textLayer s (page d) of
        None \<Rightarrow> s
      | Some layer \<Rightarrow>
          (case restoreWalk (restoredAnnotationSpan (atype d) (nextHandle s)) (atext d) layer of
             None \<Rightarrow> s
           | Some layer' \<Rightarrow>
               (setTextLayer (page d) layer' s)
                 \<lparr>annotations := annotations s @
                    [\<lparr>atext = atext d, color = color d, page = page d,
                      textBefore = textBefore d, textAfter = textAfter d,
                      timestamp = timestamp d, atype = atype d,
                      aelement = nextHandle s\<rparr>],
                  nextHandle := Suc (nextHandle s)\<rparr>))"

text \<open>
  \<open>restoreSingleComment\<close> runs the same search; its marker ends with the comment icon,
  an element whose text is the one character U+1F4AC: two code units, the surrogates
  D83D and DCAC.
\<close>

definition commentIconText :: string where
  "commentIconText = [char_of (1::nat), char_of (2::nat)]"

definition restoredCommentSpan :: "nat \<Rightarrow> node list \<Rightarrow> node" where
  "restoredCommentSpan h cs =
     Elem (Some h) ''pdf-comment-highlight restored-comment''
       (cs @ [Elem (Some (Suc h)) ''pdf-comment-icon'' [Text commentIconText]])"

definition restoreSingleComment :: "CommentData \<Rightarrow> view \<Rightarrow> view" where
  "restoreSingleComment d s =
     (case textLayer s (page d) of
        None \<Rightarrow> s
      | Some layer \<Rightarrow>
          (case restoreWalk (restoredCommentSpan (nextHandle s)) (atext d) layer of
             None \<Rightarrow> s
           | Some layer' \<Rightarrow>
               (setTextLayer (page d) layer' s)
                 \<lparr>comments := comments s @
                    [\<lparr>atext = atext d, color = color d, page = page d,
                      textBefore = textBefore d, textAfter = textAfter d,
                      timestamp = timestamp d, comment = comment d, author = author d,
                      celement = nextHandle s, icon = Suc (nextHandle s)\<rparr>],
                  nextHandle := Suc (Suc (nextHandle s))\<rparr>))"

section \<open>The capture pipeline\<close>

text \<open>
  \<open>window.getSelection()\<close>: the string the browser gives for the selection
  (\<open>selection.toString()\<close>), the page whose text layer holds the selected range, and the
  range (\<open>selection.getRangeAt(0)\<close>).
\<close>

record selection =
  selString :: string
  selPage :: nat
  selRange :: range

datatype domError = DOMException

text \<open>
  The text of a container before and after one of its offsets, and the siblings of a
  container together with its position among them (\<open>None\<close> when the container has no
  parent node in the layer, which makes the script's access to \<open>parentNode\<close> throw).
\<close>

fun textBeforePoint :: "node \<Rightarrow> nat \<Rightarrow> string" where
  "textBeforePoint (Text t) k = take k t"
| "textBeforePoint (Elem r c cs) k = textContent (take k cs)"

fun textAfterPoint :: "node \<Rightarrow> nat \<Rightarrow> string" where
  "textAfterPoint (Text t) k = drop k t"
| "textAfterPoint (Elem r c cs) k = textContent (drop k cs)"

definition siblingsOf :: "node list \<Rightarrow> nat list \<Rightarrow> (node list \<times> nat) option" where
  "siblingsOf layer p =
     (if p = [] then None
      else (case nodeAt (Elem None [] layer) (butlast p) of
              Some (Elem r c cs) \<Rightarrow> (if last p < length cs then Some (cs, last p) else None)
            | _ \<Rightarrow> None))"

text \<open>
  The body of the \<open>try\<close> block of \<open>getTextBefore\<close>: the string of the range from the start
  of the start container's parent to the start of the selection. When the start
  container is the text layer itself, its parent is the page element, which holds no
  text outside the text layer.
\<close>

definition preRangeText :: "node list option \<Rightarrow> range \<Rightarrow> domError + string" where
  "preRangeText layer r =
     (case layer of
        None \<Rightarrow> Inl DOMException
      | Some l \<Rightarrow>
          (if startContainer r = [] then Inr (textContent (take (startOffset r) l))
           else (case siblingsOf l (startContainer r) of
                   None \<Rightarrow> Inl DOMException
                 | Some (cs, i) \<Rightarrow>
                     Inr (textContent (take i cs) @ textBeforePoint (cs ! i) (startOffset r)))))"

text \<open>
  The body of the \<open>try\<close> block of \<open>getTextAfter\<close>: the range starts at the end of the
  selection; its end is moved to the end of the end container's parent only when that
  parent has text (\<open>if (container.textContent)\<close>), otherwise the range stays collapsed.
\<close>

definition postRangeText :: "node list option \<Rightarrow> range \<Rightarrow> domError + string" where
  "postRangeText layer r =
     (case layer of
        None \<Rightarrow> Inl DOMException
      | Some l \<Rightarrow>
          (if endContainer r = [] then
             (if textContent l \<noteq> [] then Inr (textContent (drop (endOffset r) l)) else Inr [])
           else (case siblingsOf l (endContainer r) of
                   None \<Rightarrow> Inl DOMException
                 | Some (cs, i) \<Rightarrow>
                     (if textContent cs \<noteq> []
                      then Inr (textAfterPoint (cs ! i) (endOffset r) @ textContent (drop (Suc i) cs))
                      else Inr []))))"

definition getTextBefore :: "node list option \<Rightarrow> range \<Rightarrow> int \<Rightarrow> string" where
  "getTextBefore layer r len =
     (case preRangeText layer r of Inl e \<Rightarrow> [] | Inr t \<Rightarrow> jsSliceFrom t (- len))"

definition getTextAfter :: "node list option \<Rightarrow> range \<Rightarrow> int \<Rightarrow> string" where
  "getTextAfter layer r len =
     (case postRangeText layer r of Inl e \<Rightarrow> [] | Inr t \<Rightarrow> jsSlice t 0 len)"

text \<open>
  The code both branches of \<open>highlightSelection\<close> run once the span is in place: push the
  entry, post \<open>highlightAdded\<close> with the data to persist. \<open>now\<close> is \<open>Date.now()\<close>.
\<close>

definition commitHighlight ::
  "string \<Rightarrow> string \<Rightarrow> nat \<Rightarrow> string \<Rightarrow> string \<Rightarrow> nat \<Rightarrow> nat \<Rightarrow> node list \<Rightarrow> view \<Rightarrow> view" where
  "commitHighlight highlightColor t currentPage tb ta now p l s =
     (let s1 = (setTextLayer p l s)
                 \<lparr>highlights := highlights s @
                    [\<lparr>atext = t, color = highlightColor, page = currentPage,
                      textBefore = tb, textAfter = ta, element = nextHandle s\<rparr>],
                  nextHandle := Suc (nextHandle s)\<rparr>
      in postMessage
           (HighlightAdded highlightColor (length (highlights s1))
              \<lparr>atext = t, color = highlightColor, page = currentPage,
               textBefore = tb, textAfter = ta, timestamp = now\<rparr>) s1)"

definition highlightSelection :: "string \<Rightarrow> nat \<Rightarrow> selection option \<Rightarrow> view \<Rightarrow> view" where
  "highlightSelection clr now sel s =
     (let highlightColor = (if clr = [] then currentHighlightColor s else clr)
      in case sel of
           None \<Rightarrow> postMessage NoSelection s
         | Some x \<Rightarrow>
             (if jsTrim (selString x) = [] then postMessage NoSelection s
              else
                (let rng = selRange x;
                     layer = textLayer s (selPage x);
                     span = Elem (Some (nextHandle s)) ''pdf-highlight'';
                     t = jsTrim (selString x);
                     currentPage = currentPageNumber s;
                     tb = getTextBefore layer rng 20;
                     ta = getTextAfter layer rng 20
                 in case Option.bind layer (\<lambda>l. surroundContents span l rng) of
                      Some (l', contents) \<Rightarrow>
                        commitHighlight highlightColor t currentPage tb ta now (selPage x) l' s
                    | None \<Rightarrow>
                        (case Option.bind layer (\<lambda>l. extractAndInsert span l rng) of
                           Some (l', contents) \<Rightarrow>
                             commitHighlight highlightColor (textContent contents) currentPage
                               tb ta now (selPage x) l' s
                         | None \<Rightarrow>
                             postMessage
                               (HighlightError ''Cannot highlight across multiple elements'') s))))"

definition commitAnnotation ::
  "annotationType \<Rightarrow> string \<Rightarrow> string \<Rightarrow> nat \<Rightarrow> string \<Rightarrow> string \<Rightarrow> nat \<Rightarrow> nat \<Rightarrow> node list
     \<Rightarrow> view \<Rightarrow> view" where
  "commitAnnotation ty annotationColor t currentPage tb ta now p l s =
     (let s1 = (setTextLayer p l s)
                 \<lparr>annotations := annotations s @
                    [\<lparr>atext = t, color = annotationColor, page = currentPage,
                      textBefore = tb, textAfter = ta, timestamp = now, atype = ty,
                      aelement = nextHandle s\<rparr>],
                  nextHandle := Suc (nextHandle s)\<rparr>
      in postMessage
           (AnnotationAdded ty annotationColor (length (annotations s1))
              \<lparr>atext = t, color = annotationColor, page = currentPage,
               textBefore = tb, textAfter = ta, timestamp = now, atype = ty\<rparr>) s1)"

definition annotateSelection ::
  "annotationType \<Rightarrow> string \<Rightarrow> nat \<Rightarrow> selection option \<Rightarrow> view \<Rightarrow> view" where
  "annotateSelection ty clr now sel s =
     (let annotationColor = (if clr = [] then currentHighlightColor s else clr)
      in case sel of
           None \<Rightarrow> postMessage NoSelection s
         | Some x \<Rightarrow>
             (if jsTrim (selString x) = [] then postMessage NoSelection s
              else
                (let rng = selRange x;
                     layer = textLayer s (selPage x);
                     span = Elem (Some (nextHandle s)) (''pdf-annotation pdf-'' @ annotationClass ty);
                     t = jsTrim (selString x);
                     currentPage = currentPageNumber s;
                     tb = getTextBefore layer rng 20;
                     ta = getTextAfter layer rng 20
                 in case Option.bind layer (\<lambda>l. surroundContents span l rng) of
                      Some (l', contents) \<Rightarrow>
                        commitAnnotation ty annotationColor t currentPage tb ta now (selPage x) l' s
                    | None \<Rightarrow>
                        (case Option.bind layer (\<lambda>l. extractAndInsert span l rng) of
                           Some (l', contents) \<Rightarrow>
                             commitAnnotation ty annotationColor (textContent contents)
                               currentPage tb ta now (selPage x) l' s
                         | None \<Rightarrow>
                             postMessage
                               (AnnotationError ''Cannot annotate across multiple elements'') s))))"

text \<open>
  A comment's marker is the span around the selection with the comment icon appended
  as its last child. There is no second attempt: when \<open>surroundContents\<close> throws, nothing is stored.
\<close>

definition commentSpan :: "nat \<Rightarrow> node list \<Rightarrow> node" where
  "commentSpan h cs =
     Elem (Some h) ''pdf-comment-highlight''
       (cs @ [Elem (Some (Suc h)) ''pdf-comment-icon'' [Text commentIconText]])"

definition addCommentToSelection ::
  "string \<Rightarrow> string \<Rightarrow> nat \<Rightarrow> selection option \<Rightarrow> view \<Rightarrow> view" where
  "addCommentToSelection commentText clr now sel s =
     (let commentColor = (if clr = [] then ''#FFE4B5'' else clr)
      in case sel of
           None \<Rightarrow> postMessage NoSelection s
         | Some x \<Rightarrow>
             (if jsTrim (selString x) = [] then postMessage NoSelection s
              else
                (let rng = selRange x;
                     layer = textLayer s (selPage x);
                     selectedText = jsTrim (selString x);
                     currentPage = currentPageNumber s;
                     tb = getTextBefore layer rng 20;
                     ta = getTextAfter layer rng 20
                 in case Option.bind layer (\<lambda>l. surroundContents (commentSpan (nextHandle s)) l rng) of
                      Some (l', contents) \<Rightarrow>
                        (let s1 = (setTextLayer (selPage x) l' s)
                                    \<lparr>comments := comments s @
                                       [\<lparr>atext = selectedText, color = commentColor,
                                         page = currentPage, textBefore = tb, textAfter = ta,
                                         timestamp = now, comment = commentText,
                                         author = ''User'', celement = nextHandle s,
                                         icon = Suc (nextHandle s)\<rparr>],
                                     nextHandle := Suc (Suc (nextHandle s))\<rparr>
                         in postMessage
                              (CommentAdded commentColor (length (comments s1))
                                 \<lparr>atext = selectedText, color = commentColor,
                                  page = currentPage, textBefore = tb, textAfter = ta,
                                  timestamp = now, comment = commentText,
                                  author = ''User''\<rparr>) s1)
                    | None \<Rightarrow>
                        postMessage
                          (CommentError ''Cannot add comment across multiple elements'') s)))"

section \<open>Listing, deleting and clearing in the viewer script\<close>

text \<open>\<open>highlights.map((h, i) => ({index: i + 1, color, text: ...}))\<close>, by position.\<close>

fun summarize :: "nat \<Rightarrow> highlight list \<Rightarrow> summaryItem list" where
  "summarize i [] = []"
| "summarize i (h # hs) =
     \<lparr>sumIndex = i + 1, sumColor = color h,
      sumText = take 50 (atext h) @ (if length (atext h) > 50 then ''...'' else [])\<rparr>
     # summarize (Suc i) hs"

definition getHighlightsSummary :: "view \<Rightarrow> view" where
  "getHighlightsSummary s =
     postMessage (HighlightsSummary (summarize 0 (highlights s)) (length (highlights s))) s"

text \<open>
  \<open>comments.map((c, i) => ({index: i, text: ..., comment: ..., ...}))\<close>, by position:
  the text is cut after 30 characters, the comment after 50.
\<close>

fun summarizeComments :: "nat \<Rightarrow> commentEntry list \<Rightarrow> commentSummary list" where
  "summarizeComments i [] = []"
| "summarizeComments i (c # cs) =
     \<lparr>csIndex = i,
      csText = take 30 (atext c) @ (if length (atext c) > 30 then ''...'' else []),
      csComment = take 50 (comment c) @ (if length (comment c) > 50 then ''...'' else []),
      csPage = page c, csColor = color c, csAuthor = author c, csTimestamp = timestamp c\<rparr>
     # summarizeComments (Suc i) cs"

definition getCommentsList :: "view \<Rightarrow> view" where
  "getCommentsList s =
     postMessage (CommentsList (summarizeComments 0 (comments s)) (length (comments s))) s"

text \<open>\<open>xs.splice(i, 1)\<close> for an index inside the list.\<close>

definition splice1 :: "nat \<Rightarrow> 'a list \<Rightarrow> 'a list" where
  "splice1 i xs = take i xs @ drop (Suc i) xs"

definition removeHighlight :: "int \<Rightarrow> view \<Rightarrow> view" where
  "removeHighlight idx s =
     (if idx < 0 \<or> idx \<ge> int (length (highlights s))
      then postMessage (HighlightError ''Invalid index'') s
      else
        (let highlightData = highlights s ! nat idx;
             s1 = unwrapElement (element highlightData) s;
             s2 = s1\<lparr>highlights := splice1 (nat idx) (highlights s1)\<rparr>;
             s3 = (if currentHighlightIndex s2 \<ge> int (length (highlights s2))
                   then s2\<lparr>currentHighlightIndex := int (length (highlights s2)) - 1\<rparr>
                   else s2)
         in postMessage (HighlightRemoved (length (highlights s3)))
              (postMessage (HighlightRemovedWithData idx) s3)))"

text \<open>
  \<open>deleteStickyNote\<close>, which the close button of a note calls with the note's index:
  the note's element is taken out of its page if it has a parent node, and the entry
  out of the list. An index outside the list does nothing.
\<close>

definition deleteStickyNote :: "int \<Rightarrow> view \<Rightarrow> view" where
  "deleteStickyNote idx s =
     (if idx < 0 \<or> idx \<ge> int (length (stickyNotes s)) then s
      else
        (let note = stickyNotes s ! nat idx;
             s1 = s\<lparr>noteElements := removeAll (nelement note) (noteElements s)\<rparr>;
             s2 = s1\<lparr>stickyNotes := splice1 (nat idx) (stickyNotes s1)\<rparr>
         in postMessage (StickyNoteDeleted (length (stickyNotes s2))) s2))"

text \<open>
  The \<open>forEach\<close> of \<open>clearAllHighlights\<close>: every marker that still has a parent is taken
  out of the document and counted.
\<close>

fun unwrapAll :: "highlight list \<Rightarrow> view \<Rightarrow> nat \<Rightarrow> view \<times> nat" where
  "unwrapAll [] s removed = (s, removed)"
| "unwrapAll (h # hs) s removed =
     (if hasParentNode s (element h)
      then unwrapAll hs (unwrapElement (element h) s) (Suc removed)
      else unwrapAll hs s removed)"

definition clearAllHighlights :: "view \<Rightarrow> view" where
  "clearAllHighlights s =
     (case unwrapAll (highlights s) s 0 of
        (s1, removed) \<Rightarrow>
          postMessage (HighlightsCleared removed)
            (s1\<lparr>highlights := [], currentHighlightIndex := - 1\<rparr>))"

text \<open>
  \<open>clearDrawings\<close> drops the drawings of the current page from the list; \<open>clearRect\<close>
  empties the overlay, if one exists.
\<close>

definition clearDrawings :: "view \<Rightarrow> view" where
  "clearDrawings s =
     (let currentPage = currentPageNumber s;
          removed = length (filter (\<lambda>d. dpage d = currentPage) (drawingAnnotations s));
          s1 = s\<lparr>drawingAnnotations := filter (\<lambda>d. dpage d \<noteq> currentPage) (drawingAnnotations s)\<rparr>;
          s2 = (case canvas s1 of None \<Rightarrow> s1 | Some painted \<Rightarrow> s1\<lparr>canvas := Some []\<rparr>)
      in postMessage (DrawingsCleared removed) s2)"

section \<open>The host: the persisted anchor store\<close>

text \<open>
  \<open>context.globalState\<close> is a key-value store that outlives the editor session; a value
  is the list written under its key. The preview object of one open document holds the
  document's resource string and the in-memory lists \<open>_savedHighlights\<close>,
  \<open>_savedAnnotations\<close>, \<open>_savedComments\<close>, \<open>_savedStickyNotes\<close> and \<open>_savedDrawings\<close>.
\<close>

datatype stored =
    StoredHighlights "HighlightData list"
  | StoredAnnotations "AnnotationData list"
  | StoredComments "CommentData list"
  | StoredStickyNotes "StickyNoteData list"
  | StoredDrawings "DrawingData list"

record host =
  resource :: string
  globalState :: "string \<Rightarrow> stored option"
  savedHighlights :: "HighlightData list"
  savedAnnotations :: "AnnotationData list"
  savedComments :: "CommentData list"
  savedStickyNotes :: "StickyNoteData list"
  savedDrawings :: "DrawingData list"

definition getHighlightsKey :: "host \<Rightarrow> string" where
  "getHighlightsKey h = ''pdf-highlights-'' @ resource h"

definition loadHighlights :: "host \<Rightarrow> host" where
  "loadHighlights h =
     h\<lparr>savedHighlights :=
         (case globalState h (getHighlightsKey h) of Some (StoredHighlights l) \<Rightarrow> l | _ \<Rightarrow> [])\<rparr>"

definition saveHighlights :: "host \<Rightarrow> host" where
  "saveHighlights h =
     h\<lparr>globalState := (globalState h)(getHighlightsKey h \<mapsto> StoredHighlights (savedHighlights h))\<rparr>"

definition addHighlightToStorage :: "HighlightData \<Rightarrow> host \<Rightarrow> host" where
  "addHighlightToStorage d h = saveHighlights (h\<lparr>savedHighlights := savedHighlights h @ [d]\<rparr>)"

definition removeHighlightFromStorage :: "int \<Rightarrow> host \<Rightarrow> host" where
  "removeHighlightFromStorage idx h =
     (if idx \<ge> 0 \<and> idx < int (length (savedHighlights h))
      then saveHighlights (h\<lparr>savedHighlights := splice1 (nat idx) (savedHighlights h)\<rparr>)
      else h)"

definition clearHighlightsStorage :: "host \<Rightarrow> host" where
  "clearHighlightsStorage h = saveHighlights (h\<lparr>savedHighlights := []\<rparr>)"

definition saveHighlightsStorage :: "host \<Rightarrow> host" where
  "saveHighlightsStorage h =
     h\<lparr>globalState :=
         (globalState h)(''pdf.highlights.'' @ resource h \<mapsto> StoredHighlights (savedHighlights h))\<rparr>"

definition loadAnnotations :: "host \<Rightarrow> host" where
  "loadAnnotations h =
     h\<lparr>savedAnnotations :=
         (case globalState h (''pdf.annotations.'' @ resource h) of
            Some (StoredAnnotations l) \<Rightarrow> l | _ \<Rightarrow> [])\<rparr>"

definition saveAnnotations :: "host \<Rightarrow> host" where
  "saveAnnotations h =
     h\<lparr>globalState :=
         (globalState h)(''pdf.annotations.'' @ resource h \<mapsto> StoredAnnotations (savedAnnotations h))\<rparr>"

definition loadComments :: "host \<Rightarrow> host" where
  "loadComments h =
     h\<lparr>savedComments :=
         (case globalState h (''pdf.comments.'' @ resource h) of
            Some (StoredComments l) \<Rightarrow> l | _ \<Rightarrow> [])\<rparr>"

definition saveComments :: "host \<Rightarrow> host" where
  "saveComments h =
     h\<lparr>globalState :=
         (globalState h)(''pdf.comments.'' @ resource h \<mapsto> StoredComments (savedComments h))\<rparr>"

definition loadStickyNotes :: "host \<Rightarrow> host" where
  "loadStickyNotes h =
     h\<lparr>savedStickyNotes :=
         (case globalState h (''pdf.stickyNotes.'' @ resource h) of
            Some (StoredStickyNotes l) \<Rightarrow> l | _ \<Rightarrow> [])\<rparr>"

definition saveStickyNotes :: "host \<Rightarrow> host" where
  "saveStickyNotes h =
     h\<lparr>globalState :=
         (globalState h)(''pdf.stickyNotes.'' @ resource h \<mapsto> StoredStickyNotes (savedStickyNotes h))\<rparr>"

definition loadDrawings :: "host \<Rightarrow> host" where
  "loadDrawings h =
     h\<lparr>savedDrawings :=
         (case globalState h (''pdf.drawings.'' @ resource h) of
            Some (StoredDrawings l) \<Rightarrow> l | _ \<Rightarrow> [])\<rparr>"

definition saveDrawings :: "host \<Rightarrow> host" where
  "saveDrawings h =
     h\<lparr>globalState :=
         (globalState h)(''pdf.drawings.'' @ resource h \<mapsto> StoredDrawings (savedDrawings h))\<rparr>"

definition saveAllAnnotations :: "host \<Rightarrow> host" where
  "saveAllAnnotations h =
     saveDrawings (saveStickyNotes (saveComments (saveAnnotations (saveHighlightsStorage h))))"

definition loadAllAnnotations :: "host \<Rightarrow> host" where
  "loadAllAnnotations h =
     loadDrawings (loadStickyNotes (loadComments (loadAnnotations (loadHighlights h))))"

definition addAnnotationToStorage :: "AnnotationData \<Rightarrow> host \<Rightarrow> host" where
  "addAnnotationToStorage d h = saveAllAnnotations (h\<lparr>savedAnnotations := savedAnnotations h @ [d]\<rparr>)"

definition addCommentToStorage :: "CommentData \<Rightarrow> host \<Rightarrow> host" where
  "addCommentToStorage d h = saveAllAnnotations (h\<lparr>savedComments := savedComments h @ [d]\<rparr>)"

definition addStickyNoteToStorage :: "StickyNoteData \<Rightarrow> host \<Rightarrow> host" where
  "addStickyNoteToStorage d h = saveAllAnnotations (h\<lparr>savedStickyNotes := savedStickyNotes h @ [d]\<rparr>)"

definition addDrawingToStorage :: "DrawingData \<Rightarrow> host \<Rightarrow> host" where
  "addDrawingToStorage d h = saveAllAnnotations (h\<lparr>savedDrawings := savedDrawings h @ [d]\<rparr>)"

text \<open>
  The constructor of \<open>PdfPreview\<close> for a resource, on the store as the last session left
  it: the field initialisers, then \<open>this.loadHighlights()\<close>. (Its other loads concern
  bookmarks, reading statistics and the search history.)
\<close>

definition newPdfPreview :: "string \<Rightarrow> (string \<Rightarrow> stored option) \<Rightarrow> host" where
  "newPdfPreview res gs =
     loadHighlights
       \<lparr>resource = res, globalState = gs, savedHighlights = [], savedAnnotations = [],
        savedComments = [], savedStickyNotes = [], savedDrawings = []\<rparr>"

text \<open>
  The handler of \<open>webview.onDidReceiveMessage\<close>, for the messages of the annotation
  subsystem. The cases that only show a notification leave the host as it is.
\<close>

fun onDidReceiveMessage :: "message \<Rightarrow> host \<Rightarrow> host" where
  "onDidReceiveMessage (HighlightAdded c n d) h = addHighlightToStorage d h"
| "onDidReceiveMessage (HighlightRemovedWithData idx) h = removeHighlightFromStorage idx h"
| "onDidReceiveMessage (HighlightsCleared n) h = clearHighlightsStorage h"
| "onDidReceiveMessage (AnnotationAdded ty c n d) h = addAnnotationToStorage d h"
| "onDidReceiveMessage (CommentAdded c n d) h = addCommentToStorage d h"
| "onDidReceiveMessage (StickyNoteAdded n d) h = addStickyNoteToStorage d h"
| "onDidReceiveMessage (DrawingAdded n d) h = addDrawingToStorage d h"
| "onDidReceiveMessage m h = h"

section \<open>Auxiliary notions for the proofs\<close>

text \<open>
  What the search loop does to the sequence of text nodes: the first string that
  contains \<open>t\<close> is replaced by the part before the occurrence, the text nodes \<open>w\<close> of the
  marker, and the part after it.
\<close>

fun wrapTexts :: "string list \<Rightarrow> string \<Rightarrow> string list \<Rightarrow> string list option" where
  "wrapTexts w t [] = None"
| "wrapTexts w t (u # us) =
     (case indexOf u t of
        Some i \<Rightarrow> Some (take i u # w @ drop (i + length t) u # us)
      | None \<Rightarrow> map_option ((#) u) (wrapTexts w t us))"

text \<open>The nodes a range over an occurrence of \<open>t\<close> in one text node contains.\<close>

definition restoredContents :: "string \<Rightarrow> node list" where
  "restoredContents t = (if t = [] then [] else [Text t])"

text \<open>The text \<open>t\<close> occurs in some text node of the rendered text layer of page \<open>p\<close>.\<close>

definition locatable :: "view \<Rightarrow> nat \<Rightarrow> string \<Rightarrow> bool" where
  "locatable s p t =
     (case textLayer s p of
        None \<Rightarrow> False
      | Some ns \<Rightarrow> list_ex (\<lambda>v. indexOf v t \<noteq> None) (textNodes ns))"

text \<open>
  The layer \<open>ns\<close> with its \<open>k\<close>-th text node, counted in document order from 0,
  replaced by the nodes \<open>new\<close>; every other node stays where it is.
\<close>

fun replaceTextNode :: "nat \<Rightarrow> node list \<Rightarrow> node list \<Rightarrow> node list" where
  "replaceTextNode k new [] = []"
| "replaceTextNode k new (Text s # ns) =
     (if k = 0 then new @ ns else Text s # replaceTextNode (k - 1) new ns)"
| "replaceTextNode k new (Elem r c cs # ns) =
     (if k < length (textNodes cs) then Elem r c (replaceTextNode k new cs) # ns
      else Elem r c cs # replaceTextNode (k - length (textNodes cs)) new ns)"

text \<open>
  The text nodes of the layer are \<open>pre\<close>, then \<open>u\<close>, then \<open>post\<close>; \<open>t\<close> occurs in no node
  of \<open>pre\<close>, and its first occurrence in \<open>u\<close> is at position \<open>i\<close>.
\<close>

definition firstOccurrence ::
  "node list \<Rightarrow> string \<Rightarrow> string list \<Rightarrow> string \<Rightarrow> nat \<Rightarrow> string list \<Rightarrow> bool" where
  "firstOccurrence layer t pre u i post =
     (textNodes layer = pre @ u # post
      \<and> (\<forall>v\<in>set pre. \<not> sublist t v)
      \<and> i \<le> length u \<and> prefix t (drop i u) \<and> (\<forall>j<i. \<not> prefix t (drop j u)))"


text \<open>
  The nodes \<open>ns\<close> with every element whose handle is among \<open>hs\<close> replaced by its
  children; elements with another handle, or with none, stay.
\<close>

fun unwrapMarked :: "nat list \<Rightarrow> node list \<Rightarrow> node list" where
  "unwrapMarked hs [] = []"
| "unwrapMarked hs (Text s # ns) = Text s # unwrapMarked hs ns"
| "unwrapMarked hs (Elem r c cs # ns) =
     (if r \<in> Some ` set hs then unwrapMarked hs cs @ unwrapMarked hs ns
      else Elem r c (unwrapMarked hs cs) # unwrapMarked hs ns)"

text \<open>
  The live markers: the elements of the rendered text layers that carry a handle
  (the spans the script inserted; a comment's icon has a handle of its own).
\<close>

fun countMarkers :: "node list \<Rightarrow> nat" where
  "countMarkers [] = 0"
| "countMarkers (Text s # ns) = countMarkers ns"
| "countMarkers (Elem r c cs # ns) =
     (if r = None then 0 else 1) + countMarkers cs + countMarkers ns"

definition liveMarkers :: "view \<Rightarrow> nat" where
  "liveMarkers s =
     sum_list (map (\<lambda>l. case l of None \<Rightarrow> 0 | Some ns \<Rightarrow> countMarkers ns) (pages s))"

text \<open>There is no selection, or the selected string is empty or white space only.\<close>

definition noSelection :: "selection option \<Rightarrow> bool" where
  "noSelection sel =
     (case sel of None \<Rightarrow> True | Some x \<Rightarrow> \<forall>c\<in>set (selString x). isWhiteSpace c)"

text \<open>
  The context strings a capture takes for a selection, and what a successful capture
  leaves behind: one more entry in the in-memory list and one message that carries
  the anchor to persist, both with the text \<open>t\<close>, the colour \<open>c\<close>, the current page
  number and the two context strings.
\<close>

definition contextBefore :: "view \<Rightarrow> selection \<Rightarrow> string" where
  "contextBefore s x = getTextBefore (textLayer s (selPage x)) (selRange x) 20"

definition contextAfter :: "view \<Rightarrow> selection \<Rightarrow> string" where
  "contextAfter s x = getTextAfter (textLayer s (selPage x)) (selRange x) 20"

definition storesHighlight :: "view \<Rightarrow> view \<Rightarrow> selection \<Rightarrow> string \<Rightarrow> string \<Rightarrow> nat \<Rightarrow> bool" where
  "storesHighlight s s' x t c now =
     (highlights s' = highlights s @
        [\<lparr>atext = t, color = c, page = currentPageNumber s,
          textBefore = contextBefore s x, textAfter = contextAfter s x,
          element = nextHandle s\<rparr>]
      \<and> outbox s' = outbox s @
        [HighlightAdded c (Suc (length (highlights s)))
           \<lparr>atext = t, color = c, page = currentPageNumber s,
            textBefore = contextBefore s x, textAfter = contextAfter s x,
            timestamp = now\<rparr>])"

definition storesAnnotation ::
  "view \<Rightarrow> view \<Rightarrow> selection \<Rightarrow> annotationType \<Rightarrow> string \<Rightarrow> string \<Rightarrow> nat \<Rightarrow> bool" where
  "storesAnnotation s s' x ty t c now =
     (annotations s' = annotations s @
        [\<lparr>atext = t, color = c, page = currentPageNumber s,
          textBefore = contextBefore s x, textAfter = contextAfter s x,
          timestamp = now, atype = ty, aelement = nextHandle s\<rparr>]
      \<and> outbox s' = outbox s @
        [AnnotationAdded ty c (Suc (length (annotations s)))
           \<lparr>atext = t, color = c, page = currentPageNumber s,
            textBefore = contextBefore s x, textAfter = contextAfter s x,
            timestamp = now, atype = ty\<rparr>])"

definition storesComment ::
  "view \<Rightarrow> view \<Rightarrow> selection \<Rightarrow> string \<Rightarrow> string \<Rightarrow> string \<Rightarrow> nat \<Rightarrow> bool" where
  "storesComment s s' x body t c now =
     (comments s' = comments s @
        [\<lparr>atext = t, color = c, page = currentPageNumber s,
          textBefore = contextBefore s x, textAfter = contextAfter s x,
          timestamp = now, comment = body, author = ''User'',
          celement = nextHandle s, icon = Suc (nextHandle s)\<rparr>]
      \<and> outbox s' = outbox s @
        [CommentAdded c (Suc (length (comments s)))
           \<lparr>atext = t, color = c, page = currentPageNumber s,
            textBefore = contextBefore s x, textAfter = contextAfter s x,
            timestamp = now, comment = body, author = ''User''\<rparr>])"

section \<open>Example states\<close>

text \<open>
  A one-page document whose text layer holds the single line \<open>hello world\<close>, with
  nothing stored yet, and a stored highlight of the word \<open>hello\<close> on page 1.
\<close>

definition helloView :: view where
  "helloView =
     \<lparr>pages = [Some [Elem None ''span'' [Text ''hello world'']]], currentPageNumber = 1,
      highlights = [], annotations = [], comments = [], stickyNotes = [],
      drawingAnnotations = [], currentHighlightIndex = - 1,
      currentHighlightColor = ''#FFFF00'', canvas = None, nextHandle = 0, outbox = [],
      detached = [], noteElements = []\<rparr>"

definition helloAnchor :: HighlightData where
  "helloAnchor =
     \<lparr>atext = ''hello'', color = ''#FFFF00'', page = 1, textBefore = [],
      textAfter = '' world'', timestamp = 0\<rparr>"

text \<open>
  A two-page document: page 1 is rendered with three lines of text, page 2 is not
  rendered yet. A stored underline of \<open>hello\<close> on page 1, and a stored highlight of
  \<open>Lorem ipsum\<close> on page 3, which this document does not have.
\<close>

definition twoLineView :: view where
  "twoLineView =
     \<lparr>pages = [Some [Elem None ''span'' [Text ''abc''],
                     Elem None ''span'' [Text ''say hello, hello''],
                     Elem None ''span'' [Text ''hello again'']], None],
      currentPageNumber = 1,
      highlights = [], annotations = [], comments = [], stickyNotes = [],
      drawingAnnotations = [], currentHighlightIndex = - 1,
      currentHighlightColor = ''#FFFF00'', canvas = None, nextHandle = 0, outbox = [],
      detached = [], noteElements = []\<rparr>"

definition twoLineLayer :: "node list" where
  "twoLineLayer =
     [Elem None ''span'' [Text ''abc''],
      Elem None ''span'' [Text ''say hello, hello''],
      Elem None ''span'' [Text ''hello again'']]"

definition helloUnderline :: AnnotationData where
  "helloUnderline =
     \<lparr>atext = ''hello'', color = ''#FF0000'', page = 1, textBefore = ''say '',
      textAfter = '', hello'', timestamp = 0, atype = Underline\<rparr>"

definition helloComment :: CommentData where
  "helloComment =
     \<lparr>atext = ''hello'', color = ''#FFE4B5'', page = 1, textBefore = ''say '',
      textAfter = '', hello'', timestamp = 0, comment = ''greeting'', author = ''User''\<rparr>"

definition loremAnchor :: HighlightData where
  "loremAnchor =
     \<lparr>atext = ''Lorem ipsum'', color = ''#FFFF00'', page = 3, textBefore = [],
      textAfter = [], timestamp = 0\<rparr>"

text \<open>A selection of two blanks.\<close>

definition blankSelection :: selection where
  "blankSelection =
     \<lparr>selString = ''  '', selPage = 1,
      selRange = \<lparr>startContainer = [0, 0], startOffset = 3, endContainer = [0, 0], endOffset = 5\<rparr>\<rparr>"

text \<open>
  A page with the two adjacent text spans \<open>foo \<close> and \<open>bar baz\<close>; a selection that runs
  from the blank at the end of the first span to the end of \<open>bar\<close> in the second, and
  a selection of \<open>baz\<close> inside the second span, for which the browser reports one
  trailing blank.
\<close>

definition fooBarView :: view where
  "fooBarView =
     \<lparr>pages = [Some [Elem None ''span'' [Text ''foo ''], Elem None ''span'' [Text ''bar baz'']]],
      currentPageNumber = 1,
      highlights = [], annotations = [], comments = [], stickyNotes = [],
      drawingAnnotations = [], currentHighlightIndex = - 1,
      currentHighlightColor = ''#FFFF00'', canvas = None, nextHandle = 0, outbox = [],
      detached = [], noteElements = []\<rparr>"

definition barSelection :: selection where
  "barSelection =
     \<lparr>selString = '' bar'', selPage = 1,
      selRange = \<lparr>startContainer = [0, 0], startOffset = 3, endContainer = [1, 0], endOffset = 3\<rparr>\<rparr>"

definition bazSelection :: selection where
  "bazSelection =
     \<lparr>selString = ''baz '', selPage = 1,
      selRange = \<lparr>startContainer = [1, 0], startOffset = 4, endContainer = [1, 0], endOffset = 7\<rparr>\<rparr>"

text \<open>
  Drawings: a rectangle on a given page. A view of the two-page document with one
  rectangle on each page, page 1 being current, and the host after it received the
  two \<open>drawingAdded\<close> messages in a fresh session for \<open>file:///a.pdf\<close>.
\<close>

definition rectOn :: "nat \<Rightarrow> nat \<Rightarrow> DrawingData" where
  "rectOn p ts =
     \<lparr>dtype = Rectangle, dcolor = ''#FF0000'', strokeWidth = 2, dpage = p, dtimestamp = ts,
      geometry = [10, 10, 50, 30]\<rparr>"

definition drawView :: view where
  "drawView = twoLineView\<lparr>drawingAnnotations := [rectOn 1 1, rectOn 2 2], canvas := Some [rectOn 1 1]\<rparr>"

definition drawHost :: host where
  "drawHost =
     onDidReceiveMessage (DrawingAdded 2 (rectOn 2 2))
       (onDidReceiveMessage (DrawingAdded 1 (rectOn 1 1))
          (newPdfPreview ''file:///a.pdf'' Map.empty))"

text \<open>The one-line document after its stored highlight was restored once.\<close>

definition markedView :: view where
  "markedView = restoreHighlights [helloAnchor] helloView"

text \<open>
  Stored highlights of the words \<open>alpha\<close>, \<open>beta\<close> and \<open>gamma\<close> on page 1, the host
  after the three \<open>highlightAdded\<close> messages for them, and a host session in which one
  underline was added.
\<close>

definition greek :: "string \<Rightarrow> HighlightData" where
  "greek t = \<lparr>atext = t, color = ''#FFFF00'', page = 1, textBefore = [], textAfter = [], timestamp = 0\<rparr>"

definition threeHost :: host where
  "threeHost =
     onDidReceiveMessage (HighlightAdded ''#FFFF00'' 3 (greek ''gamma''))
       (onDidReceiveMessage (HighlightAdded ''#FFFF00'' 2 (greek ''beta''))
          (onDidReceiveMessage (HighlightAdded ''#FFFF00'' 1 (greek ''alpha''))
             (newPdfPreview ''file:///a.pdf'' Map.empty)))"

definition underlineSession :: host where
  "underlineSession =
     onDidReceiveMessage (AnnotationAdded Underline ''#FF0000'' 1 helloUnderline)
       (newPdfPreview ''file:///a.pdf'' Map.empty)"

text \<open>
  A later capture that cuts through the restored marker: the selection runs from the
  middle of \<open>hello\<close>, inside the marker, to the middle of \<open> world\<close>, outside it.
\<close>

definition cutSelection :: selection where
  "cutSelection =
     \<lparr>selString = ''llo wo'', selPage = 1,
      selRange = \<lparr>startContainer = [0, 1, 0], startOffset = 2, endContainer = [0, 2], endOffset = 3\<rparr>\<rparr>"

definition cutView :: view where
  "cutView = highlightSelection [] 5 (Some cutSelection) markedView"

text \<open>
  The one-line document with its restored highlight, after the renderer has replaced
  the text layer of page 1 by a fresh one: the old layer, with the marker in it, is
  outside the document.
\<close>

definition rerenderedView :: view where
  "rerenderedView =
     markedView\<lparr>pages := [Some [Elem None ''span'' [Text ''hello world'']]],
       detached := [Elem None ''textLayer'' [Elem None ''span''
          [Text [], Elem (Some 0) ''pdf-highlight restored-highlight'' [Text ''hello''],
           Text '' world'']]]\<rparr>"

text \<open>
  The host of a session that reopens \<open>file:///a.pdf\<close> after an earlier session stored
  the highlights \<open>Lorem ipsum\<close> (page 3) and \<open>hello\<close> (page 1), and the view of the
  two-page document after the host's \<open>restoreHighlights\<close> message for the loaded list.
\<close>

definition reopenedHost :: host where
  "reopenedHost =
     newPdfPreview ''file:///a.pdf''
       (globalState
          (onDidReceiveMessage (HighlightAdded ''#FFFF00'' 2 helloAnchor)
             (onDidReceiveMessage (HighlightAdded ''#FFFF00'' 1 loremAnchor)
                (newPdfPreview ''file:///a.pdf'' Map.empty))))"

definition reopenedView :: view where
  "reopenedView = restoreHighlights (savedHighlights reopenedHost) twoLineView"

text \<open>
  A sticky note on page 1, the view of the one-line document that shows it, and the
  host after the \<open>stickyNoteAdded\<close> message for it in a fresh session.
\<close>

definition todoNote :: StickyNoteData where
  "todoNote =
     \<lparr>content = ''todo'', ncolor = ''#FFFACD'', npage = 1, noteX = 40, noteY = 60,
      ntimestamp = 3\<rparr>"

definition noteView :: view where
  "noteView =
     helloView\<lparr>stickyNotes :=
         [\<lparr>content = ''todo'', ncolor = ''#FFFACD'', npage = 1, noteX = 40, noteY = 60,
           ntimestamp = 3, nelement = 0\<rparr>],
       noteElements := [0], nextHandle := 1\<rparr>"

definition noteHost :: host where
  "noteHost =
     onDidReceiveMessage (StickyNoteAdded 1 todoNote) (newPdfPreview ''file:///a.pdf'' Map.empty)"

text \<open>
  A page with one line of 43 characters, and a selection of the whole line.
\<close>

definition foxView :: view where
  "foxView =
     helloView\<lparr>pages := [Some [Elem None ''span'' [Text ''The quick brown fox jumps over the lazy dog'']]]\<rparr>"

definition foxSelection :: selection where
  "foxSelection =
     \<lparr>selString = ''The quick brown fox jumps over the lazy dog'', selPage = 1,
      selRange = \<lparr>startContainer = [0, 0], startOffset = 0, endContainer = [0, 0], endOffset = 43\<rparr>\<rparr>"

section \<open>Facts about the string operations and the search loop\<close>


lemma indexOf_bound: "indexOf s t = Some i \<Longrightarrow> i + length t \<le> length s"
proof (induction s arbitrary: i)
  case Nil then show ?case by (auto split: if_splits)
next
  case (Cons c cs)
  show ?case
  proof (cases "prefix t (c # cs)")
    case True
    with Cons.prems have "i = 0" by simp
    with prefix_length_le[OF True] show ?thesis by simp
  next
    case False
    with Cons.prems obtain j where "indexOf cs t = Some j" "i = Suc j" by auto
    with Cons.IH show ?thesis by fastforce
  qed
qed

lemma indexOf_occurs: "indexOf s t = Some i \<Longrightarrow> take (length t) (drop i s) = t"
proof (induction s arbitrary: i)
  case Nil then show ?case by (auto split: if_splits)
next
  case (Cons c cs)
  show ?case
  proof (cases "prefix t (c # cs)")
    case True
    with Cons.prems have "i = 0" by simp
    with True show ?thesis by (auto simp: prefix_def)
  next
    case False
    with Cons.prems obtain j where "indexOf cs t = Some j" "i = Suc j" by auto
    with Cons.IH show ?thesis by fastforce
  qed
qed

lemma indexOf_first: "indexOf s t = Some i \<Longrightarrow> j < i \<Longrightarrow> \<not> prefix t (drop j s)"
proof (induction s arbitrary: i j)
  case Nil then show ?case by (auto split: if_splits)
next
  case (Cons c cs)
  show ?case
  proof (cases "prefix t (c # cs)")
    case True
    with Cons.prems show ?thesis by simp
  next
    case False
    with Cons.prems obtain k where k: "indexOf cs t = Some k" "i = Suc k" by auto
    show ?thesis
    proof (cases j)
      case 0 with False show ?thesis by simp
    next
      case (Suc j')
      with Cons.prems k have "j' < k" by simp
      from Cons.IH[OF k(1) this] Suc show ?thesis by simp
    qed
  qed
qed

lemma indexOf_None_iff: "indexOf s t = None \<longleftrightarrow> \<not> sublist t s"
proof (induction s)
  case Nil show ?case by auto
next
  case (Cons c cs)
  then show ?case by (auto simp: sublist_Cons_right)
qed



lemma surround_text:
  "i + n \<le> length s \<Longrightarrow>
   surroundContents mk [Text s]
      \<lparr>startContainer = [0], startOffset = i, endContainer = [0], endOffset = i + n\<rparr>
   = Some ([Text (take i s), mk (if n = 0 then [] else [Text (take n (drop i s))]),
            Text (drop (i + n) s)],
           (if n = 0 then [] else [Text (take n (drop i s))]))"
  by (simp add: surroundContents_def wrapHere_def Let_def min_def take_drop add.commute)


lemma wrapTexts_append:
  "wrapTexts w t (xs @ ys) =
     (case wrapTexts w t xs of
        Some r \<Rightarrow> Some (r @ ys)
      | None \<Rightarrow> map_option ((@) xs) (wrapTexts w t ys))"
proof (induction xs)
  case Nil
  show ?case by (cases "wrapTexts w t ys") auto
next
  case (Cons x xs)
  show ?case
    using Cons by (cases "wrapTexts w t ys"; cases "wrapTexts w t xs") (auto split: option.splits)
qed

lemma textNodes_append: "textNodes (xs @ ys) = textNodes xs @ textNodes ys"
  by (induction xs rule: textNodes.induct) auto

lemma textNodes_Cons: "textNodes (n # ns) = textNodes [n] @ textNodes ns"
  by (cases n) auto

lemma surround_at_indexOf:
  "indexOf s t = Some i \<Longrightarrow>
   surroundContents mk [Text s]
      \<lparr>startContainer = [0], startOffset = i, endContainer = [0], endOffset = i + length t\<rparr>
   = Some ([Text (take i s), mk (restoredContents t), Text (drop (i + length t) s)],
           restoredContents t)"
  using surround_text[of i "length t" s mk] indexOf_bound[of s t i] indexOf_occurs[of s t i]
  by (simp add: restoredContents_def)

lemma restoreWalk_texts:
  "map_option textNodes (restoreWalk mk t ns)
     = wrapTexts (textNodes [mk (restoredContents t)]) t (textNodes ns)"
proof (induction mk t ns rule: restoreWalk.induct)
  case (1 mk t)
  show ?case by simp
next
  case (2 mk t s ns)
  show ?case
  proof (cases "indexOf s t")
    case None
    with 2 have IH: "wrapTexts (textNodes [mk (restoredContents t)]) t (textNodes ns)
        = map_option textNodes (restoreWalk mk t ns)" by simp
    show ?thesis using None by (simp add: IH option.map_comp comp_def)
  next
    case (Some i)
    have e: "textNodes (mk (restoredContents t) # Text (drop (i + length t) s) # ns)
        = textNodes [mk (restoredContents t)] @ drop (i + length t) s # textNodes ns"
      by (subst textNodes_Cons) simp
    show ?thesis
      using Some surround_at_indexOf[OF Some, of mk] by (simp add: e)
  qed
next
  case (3 mk t r c cs ns)
  show ?case
  proof (cases "restoreWalk mk t cs")
    case None
    with 3 have IH1: "wrapTexts (textNodes [mk (restoredContents t)]) t (textNodes cs) = None"
      and IH2: "wrapTexts (textNodes [mk (restoredContents t)]) t (textNodes ns)
        = map_option textNodes (restoreWalk mk t ns)" by simp_all
    show ?thesis using None
      by (simp add: wrapTexts_append IH1 IH2 option.map_comp comp_def)
  next
    case (Some cs')
    with 3 have IH1: "wrapTexts (textNodes [mk (restoredContents t)]) t (textNodes cs)
        = Some (textNodes cs')" by simp
    show ?thesis using Some by (simp add: wrapTexts_append IH1)
  qed
qed

lemma wrapTexts_first:
  "\<forall>v\<in>set pre. indexOf v t = None \<Longrightarrow> indexOf u t = Some i \<Longrightarrow>
   wrapTexts w t (pre @ u # post) = Some (pre @ take i u # w @ drop (i + length t) u # post)"
  by (induction pre) auto

lemma wrapTexts_None: "wrapTexts w t us = None \<longleftrightarrow> (\<forall>v\<in>set us. indexOf v t = None)"
  by (induction us) (auto split: option.splits)

lemma restoreWalk_None: "restoreWalk mk t ns = None \<longleftrightarrow> (\<forall>v\<in>set (textNodes ns). indexOf v t = None)"
  using restoreWalk_texts[of mk t ns] wrapTexts_None[of "textNodes [mk (restoredContents t)]" t "textNodes ns"]
  by (cases "restoreWalk mk t ns") auto



lemma textLayer_more [simp]:
  "textLayer (s\<lparr>highlights := hs\<rparr>) = textLayer s"
  "textLayer (s\<lparr>annotations := as\<rparr>) = textLayer s"
  "textLayer (s\<lparr>comments := cs\<rparr>) = textLayer s"
  "textLayer (s\<lparr>nextHandle := n\<rparr>) = textLayer s"
  "textLayer (s\<lparr>outbox := ob\<rparr>) = textLayer s"
  "textLayer (s\<lparr>currentPageNumber := cp\<rparr>) = textLayer s"
  by (auto simp: textLayer_def fun_eq_iff)







lemma span_texts [simp]:
  "textNodes [restoredHighlightSpan h (restoredContents t)] = (if t = [] then [] else [t])"
  by (simp add: restoredHighlightSpan_def restoredContents_def)














lemma indexOf_Some_iff:
  "indexOf u t = Some i \<longleftrightarrow>
     i \<le> length u \<and> prefix t (drop i u) \<and> (\<forall>j<i. \<not> prefix t (drop j u))"
proof
  assume a: "indexOf u t = Some i"
  from indexOf_bound[OF a] have "i \<le> length u" by simp
  moreover from indexOf_occurs[OF a] have "prefix t (drop i u)"
    by (metis take_is_prefix)
  ultimately show "i \<le> length u \<and> prefix t (drop i u) \<and> (\<forall>j<i. \<not> prefix t (drop j u))"
    using indexOf_first[OF a] by blast
next
  assume b: "i \<le> length u \<and> prefix t (drop i u) \<and> (\<forall>j<i. \<not> prefix t (drop j u))"
  then have "sublist t u"
    by (metis append_take_drop_id prefix_def sublist_appendI)
  then obtain k where k: "indexOf u t = Some k" using indexOf_None_iff[of u t] by auto
  from indexOf_occurs[OF k] have pk: "prefix t (drop k u)" by (metis take_is_prefix)
  have "\<not> k < i" using b pk by blast
  moreover have "\<not> i < k" using indexOf_first[OF k] b by blast
  ultimately show "indexOf u t = Some i" using k by simp
qed

lemma restoreWalk_first:
  assumes "textNodes layer = pre @ u # post"
    and "\<forall>v\<in>set pre. \<not> sublist t v"
    and "i \<le> length u" "prefix t (drop i u)" "\<forall>j<i. \<not> prefix t (drop j u)"
  shows "\<exists>layer'. restoreWalk mk t layer = Some layer' \<and>
           textNodes layer' =
             pre @ take i u # textNodes [mk (restoredContents t)] @ drop (i + length t) u # post"
proof -
  from assms(3-5) have i: "indexOf u t = Some i" by (simp add: indexOf_Some_iff)
  from assms(2) have "\<forall>v\<in>set pre. indexOf v t = None" by (simp add: indexOf_None_iff)
  from wrapTexts_first[OF this i, of "textNodes [mk (restoredContents t)]" post]
    restoreWalk_texts[of mk t layer] assms(1)
  show ?thesis by (cases "restoreWalk mk t layer") auto
qed

section \<open>Summaries after an append\<close>

lemma summarize_append:
  "summarize i (hs @ [a]) =
     summarize i hs @
       [\<lparr>sumIndex = i + length hs + 1, sumColor = color a,
         sumText = take 50 (atext a) @ (if length (atext a) > 50 then ''...'' else [])\<rparr>]"
  by (induction hs arbitrary: i) simp_all

lemma length_summarize: "length (summarize i hs) = length hs"
  by (induction hs arbitrary: i) simp_all

lemma summarizeComments_append:
  "summarizeComments i (cs @ [c]) =
     summarizeComments i cs @
       [\<lparr>csIndex = i + length cs,
         csText = take 30 (atext c) @ (if length (atext c) > 30 then ''...'' else []),
         csComment = take 50 (comment c) @ (if length (comment c) > 50 then ''...'' else []),
         csPage = page c, csColor = color c, csAuthor = author c, csTimestamp = timestamp c\<rparr>]"
  by (induction cs arbitrary: i) simp_all

lemma length_summarizeComments: "length (summarizeComments i cs) = length cs"
  by (induction cs arbitrary: i) simp_all

text \<open>
  Claim C9, as amended. Once a highlight \<open>a\<close> has been appended to the list of
  highlights, \<open>getHighlightsSummary\<close> posts one summary per highlight; the last of them,
  at the last position (display index: the length of the list), carries the first 50
  characters of \<open>a\<close>'s text, followed by the ellipsis \<open>...\<close> exactly when the text is
  longer than 50 characters. Listing changes nothing in the list. In particular this
  holds right after a capture has pushed its entry and posted \<open>highlightAdded\<close>, on
  which the host appends the same anchor to the end of its persisted list.
  Once a comment \<open>c\<close> has been appended to the list of comments, \<open>getCommentsList\<close>
  posts one summary per comment; the last of them (index: the length of the list
  minus one) carries the first 30 characters of \<open>c\<close>'s text, followed by the ellipsis
  exactly when the text is longer than 30 characters, and the first 50 characters of
  the comment itself, with the ellipsis when it is longer than 50. The host appends
  the anchor of a new comment to the end of its list as well.
\<close>

theorem append_then_summary:
  "outbox (getHighlightsSummary (s\<lparr>highlights := highlights s @ [a]\<rparr>)) =
     outbox s @
       [HighlightsSummary
          (summarize 0 (highlights s) @
             [\<lparr>sumIndex = length (highlights s) + 1, sumColor = color a,
               sumText = take 50 (atext a) @ (if length (atext a) > 50 then ''...'' else [])\<rparr>])
          (length (highlights s) + 1)]
   \<and> length (summarize 0 (highlights s)) = length (highlights s)
   \<and> highlights (getHighlightsSummary (s\<lparr>highlights := highlights s @ [a]\<rparr>)) = highlights s @ [a]
   \<and> outbox (getHighlightsSummary (commitHighlight c t cp tb ta now p l s)) =
       outbox s @
         [HighlightAdded c (length (highlights s) + 1)
            \<lparr>atext = t, color = c, page = cp, textBefore = tb, textAfter = ta, timestamp = now\<rparr>,
          HighlightsSummary
            (summarize 0 (highlights s) @
               [\<lparr>sumIndex = length (highlights s) + 1, sumColor = c,
                 sumText = take 50 t @ (if length t > 50 then ''...'' else [])\<rparr>])
            (length (highlights s) + 1)]
   \<and> savedHighlights (addHighlightToStorage d h) = savedHighlights h @ [d]
   \<and> outbox (getCommentsList (s\<lparr>comments := comments s @ [e]\<rparr>)) =
     outbox s @
       [CommentsList
          (summarizeComments 0 (comments s) @
             [\<lparr>csIndex = length (comments s),
               csText = take 30 (atext e) @ (if length (atext e) > 30 then ''...'' else []),
               csComment = take 50 (comment e) @ (if length (comment e) > 50 then ''...'' else []),
               csPage = page e, csColor = color e, csAuthor = author e,
               csTimestamp = timestamp e\<rparr>])
          (length (comments s) + 1)]
   \<and> length (summarizeComments 0 (comments s)) = length (comments s)
   \<and> comments (getCommentsList (s\<lparr>comments := comments s @ [e]\<rparr>)) = comments s @ [e]
   \<and> savedComments (addCommentToStorage dc h) = savedComments h @ [dc]"
  by (simp add: getHighlightsSummary_def getCommentsList_def postMessage_def summarize_append
      length_summarize summarizeComments_append length_summarizeComments
      commitHighlight_def setTextLayer_def addHighlightToStorage_def saveHighlights_def
      addCommentToStorage_def saveAllAnnotations_def saveDrawings_def saveStickyNotes_def
      saveComments_def saveAnnotations_def saveHighlightsStorage_def)

text \<open>
  Claim C9 as stated fails for comments. A comment is added to the selected line
  \<open>The quick brown fox jumps over the lazy dog\<close> (43 characters). Cut to 50
  characters the text would be the whole line, without an ellipsis; the entry that
  \<open>getCommentsList\<close> posts carries the first 30 characters and the ellipsis.
\<close>

theorem comment_summary_counterexample:
  "map atext (comments (addCommentToSelection ''check'' [] 7 (Some foxSelection) foxView))
     = [''The quick brown fox jumps over the lazy dog'']
   \<and> take 50 ''The quick brown fox jumps over the lazy dog''
       @ (if length ''The quick brown fox jumps over the lazy dog'' > 50 then ''...'' else [])
     = ''The quick brown fox jumps over the lazy dog''
   \<and> last (outbox (getCommentsList
         (addCommentToSelection ''check'' [] 7 (Some foxSelection) foxView)))
     = CommentsList
         [\<lparr>csIndex = 0, csText = ''The quick brown fox jumps over...'', csComment = ''check'',
           csPage = 1, csColor = ''#FFE4B5'', csAuthor = ''User'', csTimestamp = 7\<rparr>] 1
   \<and> ''The quick brown fox jumps over...'' \<noteq> ''The quick brown fox jumps over the lazy dog''"
  by (simp add: getCommentsList_def addCommentToSelection_def foxView_def foxSelection_def
      helloView_def commentSpan_def textLayer_def setTextLayer_def surroundContents_def
      wrapHere_def postMessage_def getTextBefore_def getTextAfter_def preRangeText_def
      postRangeText_def siblingsOf_def textContent_def jsSliceFrom_def jsSlice_def relIndex_def
      jsTrim_def isWhiteSpace_def Let_def)

section \<open>The context helpers\<close>

lemma length_sliceFrom_neg: "1 \<le> n \<Longrightarrow> int (length (jsSliceFrom t (- n))) \<le> n"
  by (auto simp: jsSliceFrom_def relIndex_def Let_def)

lemma length_slice0: "0 \<le> n \<Longrightarrow> int (length (jsSlice t 0 n)) \<le> n"
  by (auto simp: jsSlice_def relIndex_def Let_def)

lemma sliceFrom_suffix: "suffix (jsSliceFrom t n) t"
  by (simp add: jsSliceFrom_def suffix_drop)

lemma slice0_prefix: "prefix (jsSlice t 0 n) t"
  by (simp add: jsSlice_def relIndex_def Let_def take_is_prefix)

lemma sliceFrom_last: "1 \<le> n \<Longrightarrow> jsSliceFrom t (- n) = drop (length t - nat n) t"
  by (auto simp: jsSliceFrom_def relIndex_def Let_def max_def nat_diff_distrib' nat_add_distrib)

lemma slice0_first: "0 \<le> n \<Longrightarrow> jsSlice t 0 n = take (nat n) t"
  by (auto simp: jsSlice_def relIndex_def Let_def min_def)

lemma capture_posts_once:
  "length (outbox (highlightSelection clr now sel s)) = Suc (length (outbox s))"
  "length (outbox (annotateSelection ty clr now sel s)) = Suc (length (outbox s))"
  "length (outbox (addCommentToSelection body clr now sel s)) = Suc (length (outbox s))"
  by (auto simp: highlightSelection_def annotateSelection_def addCommentToSelection_def
      commitHighlight_def commitAnnotation_def postMessage_def setTextLayer_def Let_def
      split: option.splits prod.splits)

text \<open>
  Claim C10. \<open>getTextBefore\<close> and \<open>getTextAfter\<close> always return a string. For every
  requested length \<open>n\<close> (a positive number: each of the six calls in the script
  requests 20) the result has at most \<open>n\<close> characters: when the extraction succeeds
  with the text \<open>t\<close>, \<open>getTextBefore\<close> returns the last \<open>n\<close> characters of \<open>t\<close> and
  \<open>getTextAfter\<close> the first \<open>n\<close>. When the extraction throws, because the page of the
  selection has no text layer or because the boundary container is not a node with a
  parent in the layer, the result is the empty string. A capture therefore always
  runs to its end: each call of \<open>highlightSelection\<close>, \<open>annotateSelection\<close> or
  \<open>addCommentToSelection\<close> posts exactly one message, whatever the selection and the
  state.
\<close>

theorem context_helpers_total:
  "(1 \<le> n \<longrightarrow>
      int (length (getTextBefore layer r n)) \<le> n
      \<and> (\<forall>t. preRangeText layer r = Inr t \<longrightarrow>
             getTextBefore layer r n = drop (length t - nat n) t))
   \<and> (0 \<le> n \<longrightarrow>
      int (length (getTextAfter layer r n)) \<le> n
      \<and> (\<forall>t. postRangeText layer r = Inr t \<longrightarrow> getTextAfter layer r n = take (nat n) t))
   \<and> (layer = None \<longrightarrow> getTextBefore layer r n = [] \<and> getTextAfter layer r n = [])
   \<and> (\<forall>l. layer = Some l \<and> startContainer r \<noteq> [] \<and> siblingsOf l (startContainer r) = None
          \<longrightarrow> getTextBefore layer r n = [])
   \<and> (\<forall>l. layer = Some l \<and> endContainer r \<noteq> [] \<and> siblingsOf l (endContainer r) = None
          \<longrightarrow> getTextAfter layer r n = [])
   \<and> length (outbox (highlightSelection clr now sel s)) = Suc (length (outbox s))
   \<and> length (outbox (annotateSelection ty clr now sel s)) = Suc (length (outbox s))
   \<and> length (outbox (addCommentToSelection body clr now sel s)) = Suc (length (outbox s))"
proof -
  have a: "int (length (getTextBefore layer r n)) \<le> n" if "1 \<le> n"
    using that length_sliceFrom_neg[of n]
    by (auto simp: getTextBefore_def split: sum.splits)
  have a': "int (length (getTextAfter layer r n)) \<le> n" if "0 \<le> n"
    using that length_slice0[of n]
    by (auto simp: getTextAfter_def split: sum.splits)
  have b: "getTextBefore layer r n = drop (length t - nat n) t"
    if "1 \<le> n" "preRangeText layer r = Inr t" for t
    using that by (simp add: getTextBefore_def sliceFrom_last)
  have c: "getTextAfter layer r n = take (nat n) t"
    if "0 \<le> n" "postRangeText layer r = Inr t" for t
    using that by (simp add: getTextAfter_def slice0_first)
  have d: "getTextBefore layer r n = [] \<and> getTextAfter layer r n = []" if "layer = None"
    using that by (simp add: getTextBefore_def getTextAfter_def preRangeText_def postRangeText_def)
  have e: "getTextBefore layer r n = []"
    if "layer = Some l" "startContainer r \<noteq> []" "siblingsOf l (startContainer r) = None" for l
    using that by (simp add: getTextBefore_def preRangeText_def)
  have f: "getTextAfter layer r n = []"
    if "layer = Some l" "endContainer r \<noteq> []" "siblingsOf l (endContainer r) = None" for l
    using that by (simp add: getTextAfter_def postRangeText_def)
  show ?thesis
    using a a' b c d e f capture_posts_once(1)[of clr now sel s]
      capture_posts_once(2)[of ty clr now sel s] capture_posts_once(3)[of body clr now sel s]
    by blast
qed

theorem context_helpers_total_witness:
  "getTextBefore (Some [Elem None ''span'' [Text ''The quick brown fox jumps over the lazy dog'']])
       \<lparr>startContainer = [0, 0], startOffset = 40, endContainer = [0, 0], endOffset = 43\<rparr> 20
       = ''jumps over the lazy ''
   \<and> getTextAfter (Some [Elem None ''span'' [Text ''The quick brown fox jumps over the lazy dog'']])
       \<lparr>startContainer = [0, 0], startOffset = 0, endContainer = [0, 0], endOffset = 3\<rparr> 20
       = '' quick brown fox jum''
   \<and> getTextBefore None \<lparr>startContainer = [0, 0], startOffset = 0, endContainer = [0, 0], endOffset = 3\<rparr> 20 = []
   \<and> getTextAfter None \<lparr>startContainer = [0, 0], startOffset = 0, endContainer = [0, 0], endOffset = 3\<rparr> 20 = []
   \<and> siblingsOf [Elem None ''span'' [Text ''hello'']] [3, 0] = None
   \<and> getTextBefore (Some [Elem None ''span'' [Text ''hello'']])
       \<lparr>startContainer = [3, 0], startOffset = 0, endContainer = [3, 0], endOffset = 3\<rparr> 20 = []
   \<and> getTextAfter (Some [Elem None ''span'' [Text ''hello'']])
       \<lparr>startContainer = [3, 0], startOffset = 0, endContainer = [3, 0], endOffset = 3\<rparr> 20 = []"
proof -
  let ?fox = "[Elem None ''span'' [Text ''The quick brown fox jumps over the lazy dog'']]"
  let ?r1 = "\<lparr>startContainer = [0, 0], startOffset = 40, endContainer = [0, 0], endOffset = 43\<rparr>"
  let ?r2 = "\<lparr>startContainer = [0, 0], startOffset = 0, endContainer = [0, 0], endOffset = 3\<rparr>"
  let ?r3 = "\<lparr>startContainer = [3, 0], startOffset = 0, endContainer = [3, 0], endOffset = 3\<rparr>"
  have p: "preRangeText (Some ?fox) ?r1 = Inr ''The quick brown fox jumps over the lazy ''"
    by (simp add: preRangeText_def siblingsOf_def textContent_def)
  have q: "postRangeText (Some ?fox) ?r2 = Inr '' quick brown fox jumps over the lazy dog''"
    by (simp add: postRangeText_def siblingsOf_def textContent_def)
  have n: "siblingsOf [Elem None ''span'' [Text ''hello'']] [3, 0] = None"
    by (simp add: siblingsOf_def)
  from context_helpers_total[of 20 "Some ?fox" ?r1] p
  have a: "getTextBefore (Some ?fox) ?r1 20 = ''jumps over the lazy ''" by simp
  from context_helpers_total[of 20 "Some ?fox" ?r2] q
  have b: "getTextAfter (Some ?fox) ?r2 20 = '' quick brown fox jum''" by simp
  from context_helpers_total[of 20 None ?r2]
  have c: "getTextBefore None ?r2 20 = []" "getTextAfter None ?r2 20 = []" by simp_all
  from context_helpers_total[of 20 "Some [Elem None ''span'' [Text ''hello'']]" ?r3] n
  have d: "getTextBefore (Some [Elem None ''span'' [Text ''hello'']]) ?r3 20 = []"
    "getTextAfter (Some [Elem None ''span'' [Text ''hello'']]) ?r3 20 = []" by simp_all
  show ?thesis using a b c d n by simp
qed

section \<open>Restoring a stored list twice\<close>






lemma locatable_frame [simp]:
  "locatable (s\<lparr>currentPageNumber := cp, outbox := ob\<rparr>) = locatable s"
  by (simp add: locatable_def fun_eq_iff textLayer_def)

lemmas restore_eval =
  restoreHighlights_def restoreSingleHighlight_def restoreSingleHighlightSearch_def
  textLayer_def setTextLayer_def surroundContents_def wrapHere_def restoredHighlightSpan_def
  postMessage_def setCurrentPageNumber_def helloView_def helloAnchor_def

lemma countMarkers_append: "countMarkers (xs @ ys) = countMarkers xs + countMarkers ys"
  by (induction xs rule: countMarkers.induct) auto


lemma liveMarkers_frame [simp]:
  "liveMarkers (s\<lparr>highlights := hs\<rparr>) = liveMarkers s"
  "liveMarkers (s\<lparr>nextHandle := n\<rparr>) = liveMarkers s"
  "liveMarkers (s\<lparr>currentPageNumber := cp\<rparr>) = liveMarkers s"
  "liveMarkers (s\<lparr>outbox := ob\<rparr>) = liveMarkers s"
  by (simp_all add: liveMarkers_def)








section \<open>Where a restored marker goes\<close>

lemma annotation_span_texts [simp]:
  "textNodes [restoredAnnotationSpan ty h (restoredContents t)] = (if t = [] then [] else [t])"
  by (simp add: restoredAnnotationSpan_def restoredContents_def)

lemma comment_span_texts [simp]:
  "textNodes [restoredCommentSpan h (restoredContents t)]
     = (if t = [] then [] else [t]) @ [commentIconText]"
  by (simp add: restoredCommentSpan_def restoredContents_def textNodes_append)

lemma append_split_left:
  "xs @ ys = pre @ u # post \<Longrightarrow> length pre < length xs \<Longrightarrow> \<exists>post'. xs = pre @ u # post'"
  by (auto simp: append_eq_append_conv2 append_eq_Cons_conv)

lemma append_split_right:
  "xs @ ys = pre @ u # post \<Longrightarrow> length xs \<le> length pre \<Longrightarrow>
   \<exists>pre'. pre = xs @ pre' \<and> ys = pre' @ u # post"
  by (auto simp: append_eq_append_conv2 append_eq_Cons_conv)

text \<open>
  The search loop replaces the first text node that contains \<open>t\<close> by the text before
  the occurrence, the marker around it and the text after it, and nothing else.
\<close>

lemma restoreWalk_replace:
  "textNodes ns = pre @ u # post \<Longrightarrow> \<forall>v\<in>set pre. indexOf v t = None \<Longrightarrow> indexOf u t = Some i \<Longrightarrow>
   restoreWalk mk t ns =
     Some (replaceTextNode (length pre)
             [Text (take i u), mk (restoredContents t), Text (drop (i + length t) u)] ns)"
proof (induction mk t ns arbitrary: pre post rule: restoreWalk.induct)
  case (1 mk t)
  then show ?case by simp
next
  case (2 mk t s ns)
  show ?case
  proof (cases pre)
    case Nil
    with "2.prems" have su: "s = u" by simp
    from "2.prems"(3) surround_at_indexOf[OF "2.prems"(3), of mk]
    show ?thesis by (simp add: Nil su)
  next
    case (Cons p pre')
    with "2.prems" have sp: "s = p" and tn: "textNodes ns = pre' @ u # post"
      and miss: "indexOf s t = None" "\<forall>v\<in>set pre'. indexOf v t = None" by simp_all
    from "2.IH"(1)[OF miss(1) tn miss(2) "2.prems"(3)]
    show ?thesis by (simp add: miss(1) Cons)
  qed
next
  case (3 mk t r c cs ns)
  from "3.prems"(1) have tn: "textNodes cs @ textNodes ns = pre @ u # post" by simp
  show ?case
  proof (cases "length pre < length (textNodes cs)")
    case True
    from append_split_left[OF tn True] obtain post' where "textNodes cs = pre @ u # post'" by blast
    from "3.IH"(1)[OF this "3.prems"(2,3)] True show ?thesis by simp
  next
    case False
    then have "length (textNodes cs) \<le> length pre" by simp
    from append_split_right[OF tn this] obtain pre' where
      p: "pre = textNodes cs @ pre'" and tn': "textNodes ns = pre' @ u # post" by blast
    from p "3.prems"(2) have m1: "\<forall>v\<in>set (textNodes cs). indexOf v t = None"
      and m2: "\<forall>v\<in>set pre'. indexOf v t = None" by auto
    from m1 have n: "restoreWalk mk t cs = None" by (simp add: restoreWalk_None)
    from "3.IH"(2)[OF n tn' m2 "3.prems"(3)] False show ?thesis by (simp add: n p)
  qed
qed

lemma restoreWalk_at_first:
  assumes "firstOccurrence layer t pre u i post"
  shows "restoreWalk mk t layer =
           Some (replaceTextNode (length pre)
                   [Text (take i u), mk (restoredContents t), Text (drop (i + length t) u)] layer)"
    and "textNodes (replaceTextNode (length pre)
                   [Text (take i u), mk (restoredContents t), Text (drop (i + length t) u)] layer)
         = pre @ take i u # textNodes [mk (restoredContents t)] @ drop (i + length t) u # post"
proof -
  from assms have tn: "textNodes layer = pre @ u # post"
    and rest: "\<forall>v\<in>set pre. \<not> sublist t v" "i \<le> length u"
      "prefix t (drop i u)" "\<forall>j<i. \<not> prefix t (drop j u)"
    by (auto simp: firstOccurrence_def)
  from rest(2-4) have i: "indexOf u t = Some i" by (simp add: indexOf_Some_iff)
  from rest(1) have m: "\<forall>v\<in>set pre. indexOf v t = None" by (simp add: indexOf_None_iff)
  show w: "restoreWalk mk t layer =
           Some (replaceTextNode (length pre)
                   [Text (take i u), mk (restoredContents t), Text (drop (i + length t) u)] layer)"
    by (rule restoreWalk_replace[OF tn m i])
  from restoreWalk_first[OF tn rest, of mk] w
  show "textNodes (replaceTextNode (length pre)
                   [Text (take i u), mk (restoredContents t), Text (drop (i + length t) u)] layer)
         = pre @ take i u # textNodes [mk (restoredContents t)] @ drop (i + length t) u # post"
    by simp
qed

lemma highlight_first:
  assumes "textLayer s (page d) = Some layer"
    and "firstOccurrence layer (atext d) pre u i post"
  shows "restoreSingleHighlightSearch d s =
           s\<lparr>pages := (pages s)[page d - 1 := Some (replaceTextNode (length pre)
                 [Text (take i u),
                  Elem (Some (nextHandle s)) ''pdf-highlight restored-highlight''
                    (if atext d = [] then [] else [Text (atext d)]),
                  Text (drop (i + length (atext d)) u)] layer)],
             highlights := highlights s @
               [\<lparr>atext = atext d, color = color d, page = page d, textBefore = textBefore d,
                 textAfter = textAfter d, element = nextHandle s\<rparr>],
             nextHandle := Suc (nextHandle s)\<rparr>"
  using restoreWalk_at_first(1)[OF assms(2), of "restoredHighlightSpan (nextHandle s)"] assms(1)
  by (simp add: restoreSingleHighlightSearch_def setTextLayer_def restoredHighlightSpan_def
      restoredContents_def)

lemma annotation_first:
  assumes "textLayer s (page d) = Some layer"
    and "firstOccurrence layer (atext d) pre u i post"
  shows "restoreSingleAnnotation d s =
           s\<lparr>pages := (pages s)[page d - 1 := Some (replaceTextNode (length pre)
                 [Text (take i u),
                  Elem (Some (nextHandle s))
                    (''pdf-annotation pdf-'' @ annotationClass (atype d) @ '' restored-annotation'')
                    (if atext d = [] then [] else [Text (atext d)]),
                  Text (drop (i + length (atext d)) u)] layer)],
             annotations := annotations s @
               [\<lparr>atext = atext d, color = color d, page = page d, textBefore = textBefore d,
                 textAfter = textAfter d, timestamp = timestamp d, atype = atype d,
                 aelement = nextHandle s\<rparr>],
             nextHandle := Suc (nextHandle s)\<rparr>"
  using restoreWalk_at_first(1)[OF assms(2), of "restoredAnnotationSpan (atype d) (nextHandle s)"]
    assms(1)
  by (simp add: restoreSingleAnnotation_def setTextLayer_def restoredAnnotationSpan_def
      restoredContents_def)

lemma comment_first:
  assumes "textLayer s (page d) = Some layer"
    and "firstOccurrence layer (atext d) pre u i post"
  shows "restoreSingleComment d s =
           s\<lparr>pages := (pages s)[page d - 1 := Some (replaceTextNode (length pre)
                 [Text (take i u),
                  Elem (Some (nextHandle s)) ''pdf-comment-highlight restored-comment''
                    ((if atext d = [] then [] else [Text (atext d)])
                     @ [Elem (Some (Suc (nextHandle s))) ''pdf-comment-icon'' [Text commentIconText]]),
                  Text (drop (i + length (atext d)) u)] layer)],
             comments := comments s @
               [\<lparr>atext = atext d, color = color d, page = page d, textBefore = textBefore d,
                 textAfter = textAfter d, timestamp = timestamp d, comment = comment d,
                 author = author d, celement = nextHandle s, icon = Suc (nextHandle s)\<rparr>],
             nextHandle := Suc (Suc (nextHandle s))\<rparr>"
  using restoreWalk_at_first(1)[OF assms(2), of "restoredCommentSpan (nextHandle s)"] assms(1)
  by (simp add: restoreSingleComment_def setTextLayer_def restoredCommentSpan_def
      restoredContents_def)

lemma comment_context_free:
  "atext d' = atext d \<Longrightarrow> page d' = page d \<Longrightarrow>
   pages (restoreSingleComment d' s) = pages (restoreSingleComment d s)"
  by (simp add: restoreSingleComment_def setTextLayer_def split: option.splits)

lemma highlight_context_free:
  "atext d' = atext d \<Longrightarrow> page d' = page d \<Longrightarrow>
   pages (restoreSingleHighlightSearch d' s) = pages (restoreSingleHighlightSearch d s)"
  by (simp add: restoreSingleHighlightSearch_def setTextLayer_def split: option.splits)

lemma annotation_context_free:
  "atext d' = atext d \<Longrightarrow> page d' = page d \<Longrightarrow> atype d' = atype d \<Longrightarrow>
   pages (restoreSingleAnnotation d' s) = pages (restoreSingleAnnotation d s)"
  by (simp add: restoreSingleAnnotation_def setTextLayer_def split: option.splits)

lemma firstOccurrenceI:
  "textNodes layer = pre @ u # post \<Longrightarrow>
   \<forall>v\<in>set pre. indexOf v t = None \<Longrightarrow> indexOf u t = Some i \<Longrightarrow>
   firstOccurrence layer t pre u i post"
  unfolding firstOccurrence_def using indexOf_Some_iff[of u t i] indexOf_None_iff
  by blast

lemma marked_texts:
  assumes "firstOccurrence layer t pre u i post"
  shows "textNodes (replaceTextNode (length pre)
            [Text (take i u), Elem r c ((if t = [] then [] else [Text t]) @ extra),
             Text (drop (i + length t) u)] layer)
         = pre @ take i u # (if t = [] then [] else [t]) @ textNodes extra
             @ drop (i + length t) u # post"
  using restoreWalk_at_first(2)[OF assms, of "\<lambda>cs. Elem r c (cs @ extra)"]
  by (simp add: restoredContents_def textNodes_append)

text \<open>
  Claim C3. Let the text layer of the anchor's page be rendered, and let the anchor's
  text first occur, in document order of the layer's text nodes, in the node \<open>u\<close> (the
  one after the nodes \<open>pre\<close>) at position \<open>i\<close>. Restoring the anchor (the search of
  \<open>restoreSingleHighlight\<close> for a highlight, \<open>restoreSingleAnnotation\<close> for an
  underline, strikethrough or squiggly annotation, \<open>restoreSingleComment\<close> for a
  comment) then changes the
  page in one place only: the text node \<open>u\<close> is replaced by the text before the
  occurrence, the new marker element, whose content is exactly that occurrence (for a
  comment followed by the comment icon), and the text after the occurrence. One entry
  that refers to the new marker is appended to the list, the other pages and
  everything else in the state stay as they are, and the search stops: no other node
  is touched. The text nodes of the layer are the old ones with \<open>u\<close> cut in three. The
  pages that result are the same for every anchor with the same text and page (and,
  for an annotation, type): \<open>textBefore\<close> and \<open>textAfter\<close> are not consulted.
\<close>

theorem restore_wraps_first_occurrence:
  "(textLayer s (page d) = Some layer \<and> firstOccurrence layer (atext d) pre u i post \<longrightarrow>
      restoreSingleHighlightSearch d s =
        s\<lparr>pages := (pages s)[page d - 1 := Some (replaceTextNode (length pre)
              [Text (take i u),
               Elem (Some (nextHandle s)) ''pdf-highlight restored-highlight''
                 (if atext d = [] then [] else [Text (atext d)]),
               Text (drop (i + length (atext d)) u)] layer)],
          highlights := highlights s @
            [\<lparr>atext = atext d, color = color d, page = page d, textBefore = textBefore d,
              textAfter = textAfter d, element = nextHandle s\<rparr>],
          nextHandle := Suc (nextHandle s)\<rparr>)
   \<and> (textLayer s (page e) = Some layer \<and> firstOccurrence layer (atext e) pre u i post \<longrightarrow>
      restoreSingleAnnotation e s =
        s\<lparr>pages := (pages s)[page e - 1 := Some (replaceTextNode (length pre)
              [Text (take i u),
               Elem (Some (nextHandle s))
                 (''pdf-annotation pdf-'' @ annotationClass (atype e) @ '' restored-annotation'')
                 (if atext e = [] then [] else [Text (atext e)]),
               Text (drop (i + length (atext e)) u)] layer)],
          annotations := annotations s @
            [\<lparr>atext = atext e, color = color e, page = page e, textBefore = textBefore e,
              textAfter = textAfter e, timestamp = timestamp e, atype = atype e,
              aelement = nextHandle s\<rparr>],
          nextHandle := Suc (nextHandle s)\<rparr>)
   \<and> (textLayer s (page c) = Some layer \<and> firstOccurrence layer (atext c) pre u i post \<longrightarrow>
      restoreSingleComment c s =
        s\<lparr>pages := (pages s)[page c - 1 := Some (replaceTextNode (length pre)
              [Text (take i u),
               Elem (Some (nextHandle s)) ''pdf-comment-highlight restored-comment''
                 ((if atext c = [] then [] else [Text (atext c)])
                  @ [Elem (Some (Suc (nextHandle s))) ''pdf-comment-icon'' [Text commentIconText]]),
               Text (drop (i + length (atext c)) u)] layer)],
          comments := comments s @
            [\<lparr>atext = atext c, color = color c, page = page c, textBefore = textBefore c,
              textAfter = textAfter c, timestamp = timestamp c, comment = comment c,
              author = author c, celement = nextHandle s, icon = Suc (nextHandle s)\<rparr>],
          nextHandle := Suc (Suc (nextHandle s))\<rparr>)
   \<and> (firstOccurrence layer t pre u i post \<longrightarrow>
        textNodes (replaceTextNode (length pre)
            [Text (take i u), Elem r cls ((if t = [] then [] else [Text t]) @ extra),
             Text (drop (i + length t) u)] layer)
         = pre @ take i u # (if t = [] then [] else [t]) @ textNodes extra
             @ drop (i + length t) u # post)
   \<and> (atext d' = atext d \<and> page d' = page d \<longrightarrow>
        pages (restoreSingleHighlightSearch d' s) = pages (restoreSingleHighlightSearch d s))
   \<and> (atext e' = atext e \<and> page e' = page e \<and> atype e' = atype e \<longrightarrow>
        pages (restoreSingleAnnotation e' s) = pages (restoreSingleAnnotation e s))
   \<and> (atext c' = atext c \<and> page c' = page c \<longrightarrow>
        pages (restoreSingleComment c' s) = pages (restoreSingleComment c s))"
  using highlight_first[of s d layer pre u i post] annotation_first[of s e layer pre u i post]
    comment_first[of s c layer pre u i post] marked_texts[of layer t pre u i post r cls extra]
    highlight_context_free[of d' d s] annotation_context_free[of e' e s]
    comment_context_free[of c' c s]
  by blast

theorem restore_wraps_first_occurrence_witness:
  "textLayer twoLineView 1 = Some twoLineLayer
   \<and> firstOccurrence twoLineLayer ''hello'' [''abc''] ''say hello, hello'' 4 [''hello again'']
   \<and> pages (restoreSingleHighlightSearch helloAnchor twoLineView) =
       [Some [Elem None ''span'' [Text ''abc''],
              Elem None ''span''
                [Text ''say '',
                 Elem (Some 0) ''pdf-highlight restored-highlight'' [Text ''hello''],
                 Text '', hello''],
              Elem None ''span'' [Text ''hello again'']], None]
   \<and> highlights (restoreSingleHighlightSearch helloAnchor twoLineView) =
       [\<lparr>atext = ''hello'', color = ''#FFFF00'', page = 1, textBefore = [],
         textAfter = '' world'', element = 0\<rparr>]
   \<and> pages (restoreSingleAnnotation helloUnderline twoLineView) =
       [Some [Elem None ''span'' [Text ''abc''],
              Elem None ''span''
                [Text ''say '',
                 Elem (Some 0) ''pdf-annotation pdf-underline restored-annotation'' [Text ''hello''],
                 Text '', hello''],
              Elem None ''span'' [Text ''hello again'']], None]
   \<and> pages (restoreSingleComment helloComment twoLineView) =
       [Some [Elem None ''span'' [Text ''abc''],
              Elem None ''span''
                [Text ''say '',
                 Elem (Some 0) ''pdf-comment-highlight restored-comment''
                   [Text ''hello'', Elem (Some 1) ''pdf-comment-icon'' [Text commentIconText]],
                 Text '', hello''],
              Elem None ''span'' [Text ''hello again'']], None]
   \<and> length (comments (restoreSingleComment helloComment twoLineView)) = 1
   \<and> textNodes (replaceTextNode 1
          [Text ''say '', Elem (Some 0) ''pdf-highlight restored-highlight'' [Text ''hello''],
           Text '', hello''] twoLineLayer)
       = [''abc'', ''say '', ''hello'', '', hello'', ''hello again'']
   \<and> pages (restoreSingleHighlightSearch
         (helloAnchor\<lparr>textBefore := ''hello again, '', textAfter := ''!''\<rparr>) twoLineView)
       = pages (restoreSingleHighlightSearch helloAnchor twoLineView)
   \<and> pages (restoreSingleAnnotation
         (helloUnderline\<lparr>textBefore := ''hello again, '', textAfter := ''!''\<rparr>) twoLineView)
       = pages (restoreSingleAnnotation helloUnderline twoLineView)
   \<and> pages (restoreSingleComment
         (helloComment\<lparr>textBefore := ''hello again, '', textAfter := ''!''\<rparr>) twoLineView)
       = pages (restoreSingleComment helloComment twoLineView)"
proof -
  have tl: "textLayer twoLineView 1 = Some twoLineLayer"
    by (simp add: twoLineView_def twoLineLayer_def textLayer_def)
  have fo: "firstOccurrence twoLineLayer ''hello'' [''abc''] ''say hello, hello'' 4 [''hello again'']"
    by (rule firstOccurrenceI) (simp_all add: twoLineLayer_def)
  have d: "page helloAnchor = 1" "atext helloAnchor = ''hello''"
    and e: "page helloUnderline = 1" "atext helloUnderline = ''hello''" "atype helloUnderline = Underline"
    and c: "page helloComment = 1" "atext helloComment = ''hello''"
    by (simp_all add: helloAnchor_def helloUnderline_def helloComment_def)
  from tl fo restore_wraps_first_occurrence[of twoLineView helloAnchor twoLineLayer "[''abc'']"
        "''say hello, hello''" 4 "[''hello again'']" helloUnderline helloComment
        "''hello''" "Some 0" "''pdf-highlight restored-highlight''" "[]"
        "helloAnchor\<lparr>textBefore := ''hello again, '', textAfter := ''!''\<rparr>"
        "helloUnderline\<lparr>textBefore := ''hello again, '', textAfter := ''!''\<rparr>"
        "helloComment\<lparr>textBefore := ''hello again, '', textAfter := ''!''\<rparr>"]
  have h1: "restoreSingleHighlightSearch helloAnchor twoLineView =
        twoLineView\<lparr>pages := (pages twoLineView)[0 := Some (replaceTextNode 1
              [Text ''say '', Elem (Some (nextHandle twoLineView)) ''pdf-highlight restored-highlight''
                 [Text ''hello''], Text '', hello''] twoLineLayer)],
          highlights := highlights twoLineView @
            [\<lparr>atext = ''hello'', color = color helloAnchor, page = 1, textBefore = textBefore helloAnchor,
              textAfter = textAfter helloAnchor, element = nextHandle twoLineView\<rparr>],
          nextHandle := Suc (nextHandle twoLineView)\<rparr>"
    and h2: "restoreSingleAnnotation helloUnderline twoLineView =
        twoLineView\<lparr>pages := (pages twoLineView)[0 := Some (replaceTextNode 1
              [Text ''say '', Elem (Some (nextHandle twoLineView))
                 (''pdf-annotation pdf-'' @ annotationClass Underline @ '' restored-annotation'')
                 [Text ''hello''], Text '', hello''] twoLineLayer)],
          annotations := annotations twoLineView @
            [\<lparr>atext = ''hello'', color = color helloUnderline, page = 1,
              textBefore = textBefore helloUnderline,
              textAfter = textAfter helloUnderline, timestamp = timestamp helloUnderline,
              atype = Underline, aelement = nextHandle twoLineView\<rparr>],
          nextHandle := Suc (nextHandle twoLineView)\<rparr>"
    and h3: "restoreSingleComment helloComment twoLineView =
        twoLineView\<lparr>pages := (pages twoLineView)[0 := Some (replaceTextNode 1
              [Text ''say '', Elem (Some (nextHandle twoLineView)) ''pdf-comment-highlight restored-comment''
                 [Text ''hello'',
                  Elem (Some (Suc (nextHandle twoLineView))) ''pdf-comment-icon'' [Text commentIconText]],
               Text '', hello''] twoLineLayer)],
          comments := comments twoLineView @
            [\<lparr>atext = ''hello'', color = color helloComment, page = 1,
              textBefore = textBefore helloComment,
              textAfter = textAfter helloComment, timestamp = timestamp helloComment,
              comment = comment helloComment,
              author = author helloComment, celement = nextHandle twoLineView,
              icon = Suc (nextHandle twoLineView)\<rparr>],
          nextHandle := Suc (Suc (nextHandle twoLineView))\<rparr>"
    and h4: "pages (restoreSingleHighlightSearch
         (helloAnchor\<lparr>textBefore := ''hello again, '', textAfter := ''!''\<rparr>) twoLineView)
       = pages (restoreSingleHighlightSearch helloAnchor twoLineView)"
    and h5: "pages (restoreSingleAnnotation
         (helloUnderline\<lparr>textBefore := ''hello again, '', textAfter := ''!''\<rparr>) twoLineView)
       = pages (restoreSingleAnnotation helloUnderline twoLineView)"
    and h6: "pages (restoreSingleComment
         (helloComment\<lparr>textBefore := ''hello again, '', textAfter := ''!''\<rparr>) twoLineView)
       = pages (restoreSingleComment helloComment twoLineView)"
    and h7: "textNodes (replaceTextNode 1
          [Text ''say '', Elem (Some 0) ''pdf-highlight restored-highlight'' [Text ''hello''],
           Text '', hello''] twoLineLayer)
       = [''abc'', ''say '', ''hello'', '', hello'', ''hello again'']"
    by (simp_all add: d e c)
  show ?thesis
    unfolding h4 h5 h6 h7
    using tl fo
    by (simp add: h1 h2 h3)
       (simp add: twoLineView_def twoLineLayer_def helloAnchor_def annotationClass_def)
qed

section \<open>Anchors that cannot be located\<close>






section \<open>Capture without a selection\<close>

lemma jsTrim_empty_iff: "jsTrim str = [] \<longleftrightarrow> (\<forall>c\<in>set str. isWhiteSpace c)"
proof
  assume "jsTrim str = []"
  then have "\<forall>c\<in>set (dropWhile isWhiteSpace str). isWhiteSpace c"
    by (simp add: jsTrim_def dropWhile_eq_Nil_conv)
  then have "dropWhile isWhiteSpace str = []"
    by (metis dropWhile_eq_Nil_conv hd_dropWhile list.set_sel(1))
  then show "\<forall>c\<in>set str. isWhiteSpace c" by (simp add: dropWhile_eq_Nil_conv)
next
  assume "\<forall>c\<in>set str. isWhiteSpace c"
  then show "jsTrim str = []"
    by (auto simp: jsTrim_def dropWhile_eq_Nil_conv dest: set_dropWhileD)
qed

text \<open>
  Claim C7. When there is no selection, or the selected string is empty or consists
  of white space only, each text-bound capture operation (\<open>highlightSelection\<close>,
  \<open>annotateSelection\<close> for underline, strikethrough and squiggly,
  \<open>addCommentToSelection\<close>) posts the \<open>noSelection\<close> notification and changes nothing
  else: every list, the document and the handle counter stay as they were. The host
  stores nothing when it receives that notification.
\<close>

theorem capture_without_selection:
  "noSelection sel \<longrightarrow>
     highlightSelection clr now sel s = s\<lparr>outbox := outbox s @ [NoSelection]\<rparr>
     \<and> annotateSelection ty clr now sel s = s\<lparr>outbox := outbox s @ [NoSelection]\<rparr>
     \<and> addCommentToSelection commentText clr now sel s = s\<lparr>outbox := outbox s @ [NoSelection]\<rparr>
     \<and> onDidReceiveMessage NoSelection h = h"
  by (auto simp: noSelection_def highlightSelection_def annotateSelection_def
      addCommentToSelection_def postMessage_def jsTrim_empty_iff Let_def split: option.splits)

theorem capture_without_selection_witness:
  "noSelection None \<and> noSelection (Some blankSelection)
   \<and> highlightSelection ''#FFFF00'' 7 None helloView = helloView\<lparr>outbox := [NoSelection]\<rparr>
   \<and> highlightSelection ''#FFFF00'' 7 (Some blankSelection) helloView = helloView\<lparr>outbox := [NoSelection]\<rparr>
   \<and> annotateSelection Underline ''#FFFF00'' 7 (Some blankSelection) helloView
        = helloView\<lparr>outbox := [NoSelection]\<rparr>
   \<and> addCommentToSelection ''note'' [] 7 (Some blankSelection) helloView
        = helloView\<lparr>outbox := [NoSelection]\<rparr>"
proof -
  have a: "noSelection None" by (simp add: noSelection_def)
  have b: "noSelection (Some blankSelection)"
    by (simp add: noSelection_def blankSelection_def isWhiteSpace_def)
  have c: "outbox helloView = []" by (simp add: helloView_def)
  show ?thesis
    using a b
      capture_without_selection[of None "''#FFFF00''" 7 helloView Underline "''note''"]
      capture_without_selection[of "Some blankSelection" "''#FFFF00''" 7 helloView Underline "''note''"]
      capture_without_selection[of "Some blankSelection" "[]" 7 helloView Underline "''note''"]
    by (simp add: c)
qed

section \<open>What a capture stores\<close>

lemma context_bounds:
  "length (contextBefore s x) \<le> 20 \<and> length (contextAfter s x) \<le> 20
   \<and> (\<forall>t. preRangeText (textLayer s (selPage x)) (selRange x) = Inr t \<longrightarrow> suffix (contextBefore s x) t)
   \<and> (\<forall>t. postRangeText (textLayer s (selPage x)) (selRange x) = Inr t \<longrightarrow> prefix (contextAfter s x) t)"
  using length_sliceFrom_neg[of 20] length_slice0[of 20]
  by (auto simp: contextBefore_def contextAfter_def getTextBefore_def getTextAfter_def
      sliceFrom_suffix slice0_prefix split: sum.splits)

lemma highlight_direct:
  assumes "jsTrim (selString x) \<noteq> []" "textLayer s (selPage x) = Some l"
    and "surroundContents (Elem (Some (nextHandle s)) ''pdf-highlight'') l (selRange x) = Some (l', cont)"
  shows "storesHighlight s (highlightSelection clr now (Some x) s) x (jsTrim (selString x))
           (if clr = [] then currentHighlightColor s else clr) now"
  using assms
  by (simp add: highlightSelection_def Let_def commitHighlight_def storesHighlight_def
      postMessage_def setTextLayer_def contextBefore_def contextAfter_def)

lemma highlight_fallback:
  assumes "jsTrim (selString x) \<noteq> []" "textLayer s (selPage x) = Some l"
    and "surroundContents (Elem (Some (nextHandle s)) ''pdf-highlight'') l (selRange x) = None"
    and "extractAndInsert (Elem (Some (nextHandle s)) ''pdf-highlight'') l (selRange x) = Some (l', cont)"
  shows "storesHighlight s (highlightSelection clr now (Some x) s) x (textContent cont)
           (if clr = [] then currentHighlightColor s else clr) now"
  using assms
  by (simp add: highlightSelection_def Let_def commitHighlight_def storesHighlight_def
      postMessage_def setTextLayer_def contextBefore_def contextAfter_def)

lemma annotation_direct:
  assumes "jsTrim (selString x) \<noteq> []" "textLayer s (selPage x) = Some l"
    and "surroundContents (Elem (Some (nextHandle s)) (''pdf-annotation pdf-'' @ annotationClass ty))
           l (selRange x) = Some (l', cont)"
  shows "storesAnnotation s (annotateSelection ty clr now (Some x) s) x ty (jsTrim (selString x))
           (if clr = [] then currentHighlightColor s else clr) now"
  using assms
  by (simp add: annotateSelection_def Let_def commitAnnotation_def storesAnnotation_def
      postMessage_def setTextLayer_def contextBefore_def contextAfter_def)

lemma annotation_fallback:
  assumes "jsTrim (selString x) \<noteq> []" "textLayer s (selPage x) = Some l"
    and "surroundContents (Elem (Some (nextHandle s)) (''pdf-annotation pdf-'' @ annotationClass ty))
           l (selRange x) = None"
    and "extractAndInsert (Elem (Some (nextHandle s)) (''pdf-annotation pdf-'' @ annotationClass ty))
           l (selRange x) = Some (l', cont)"
  shows "storesAnnotation s (annotateSelection ty clr now (Some x) s) x ty (textContent cont)
           (if clr = [] then currentHighlightColor s else clr) now"
  using assms
  by (simp add: annotateSelection_def Let_def commitAnnotation_def storesAnnotation_def
      postMessage_def setTextLayer_def contextBefore_def contextAfter_def)

lemma comment_direct:
  assumes "jsTrim (selString x) \<noteq> []" "textLayer s (selPage x) = Some l"
    and "surroundContents (commentSpan (nextHandle s)) l (selRange x) = Some (l', cont)"
  shows "storesComment s (addCommentToSelection body clr now (Some x) s) x body (jsTrim (selString x))
           (if clr = [] then ''#FFE4B5'' else clr) now"
  using assms
  by (simp add: addCommentToSelection_def Let_def storesComment_def
      postMessage_def setTextLayer_def contextBefore_def contextAfter_def)


lemma host_appends:
  "savedHighlights (onDidReceiveMessage (HighlightAdded c n d) h) = savedHighlights h @ [d]"
  "savedAnnotations (onDidReceiveMessage (AnnotationAdded ty c n da) h) = savedAnnotations h @ [da]"
  "savedComments (onDidReceiveMessage (CommentAdded c n dc) h) = savedComments h @ [dc]"
  by (simp_all add: addHighlightToStorage_def saveHighlights_def addAnnotationToStorage_def
      addCommentToStorage_def saveAllAnnotations_def saveDrawings_def saveStickyNotes_def
      saveComments_def saveAnnotations_def saveHighlightsStorage_def)

text \<open>
  Claim C8, as amended. For a non-empty selection in a rendered text layer, the two
  context strings have at most 20 characters each; the first is the end of the text
  that precedes the selection start inside the parent of the start container, the
  second the beginning of the text that follows the selection end inside the parent
  of the end container. When \<open>surroundContents\<close> wraps the selection in place (the only
  way a comment is captured), the stored anchor has the selected string with leading
  and trailing white space trimmed as its text, the current page number as its page
  and these two context strings. When \<open>surroundContents\<close> throws and the second
  attempt of \<open>highlightSelection\<close> or \<open>annotateSelection\<close> succeeds, the stored text is
  the text content of the wrapped contents instead, untrimmed; page and context are
  as before. The host appends the anchor it receives to its list.
\<close>

theorem capture_stores_anchor:
  "jsTrim (selString x) \<noteq> [] \<and> textLayer s (selPage x) = Some l \<longrightarrow>
     (length (contextBefore s x) \<le> 20 \<and> length (contextAfter s x) \<le> 20
      \<and> (\<forall>t. preRangeText (Some l) (selRange x) = Inr t \<longrightarrow> suffix (contextBefore s x) t)
      \<and> (\<forall>t. postRangeText (Some l) (selRange x) = Inr t \<longrightarrow> prefix (contextAfter s x) t))
     \<and> (\<forall>l' cont.
           surroundContents (Elem (Some (nextHandle s)) ''pdf-highlight'') l (selRange x)
             = Some (l', cont) \<longrightarrow>
           storesHighlight s (highlightSelection clr now (Some x) s) x (jsTrim (selString x))
             (if clr = [] then currentHighlightColor s else clr) now)
     \<and> (\<forall>l' cont.
           surroundContents (Elem (Some (nextHandle s)) ''pdf-highlight'') l (selRange x) = None
           \<and> extractAndInsert (Elem (Some (nextHandle s)) ''pdf-highlight'') l (selRange x)
               = Some (l', cont) \<longrightarrow>
           storesHighlight s (highlightSelection clr now (Some x) s) x (textContent cont)
             (if clr = [] then currentHighlightColor s else clr) now)
     \<and> (\<forall>l' cont.
           surroundContents (Elem (Some (nextHandle s)) (''pdf-annotation pdf-'' @ annotationClass ty))
             l (selRange x) = Some (l', cont) \<longrightarrow>
           storesAnnotation s (annotateSelection ty clr now (Some x) s) x ty (jsTrim (selString x))
             (if clr = [] then currentHighlightColor s else clr) now)
     \<and> (\<forall>l' cont.
           surroundContents (Elem (Some (nextHandle s)) (''pdf-annotation pdf-'' @ annotationClass ty))
             l (selRange x) = None
           \<and> extractAndInsert (Elem (Some (nextHandle s)) (''pdf-annotation pdf-'' @ annotationClass ty))
               l (selRange x) = Some (l', cont) \<longrightarrow>
           storesAnnotation s (annotateSelection ty clr now (Some x) s) x ty (textContent cont)
             (if clr = [] then currentHighlightColor s else clr) now)
     \<and> (\<forall>l' cont.
           surroundContents (commentSpan (nextHandle s)) l (selRange x) = Some (l', cont) \<longrightarrow>
           storesComment s (addCommentToSelection body clr now (Some x) s) x body
             (jsTrim (selString x)) (if clr = [] then ''#FFE4B5'' else clr) now)
     \<and> savedHighlights (onDidReceiveMessage (HighlightAdded c n d) h) = savedHighlights h @ [d]
     \<and> savedAnnotations (onDidReceiveMessage (AnnotationAdded ty c n da) h) = savedAnnotations h @ [da]
     \<and> savedComments (onDidReceiveMessage (CommentAdded c n dc) h) = savedComments h @ [dc]"
proof (intro impI, elim conjE)
  assume t: "jsTrim (selString x) \<noteq> []" and l: "textLayer s (selPage x) = Some l"
  show "(length (contextBefore s x) \<le> 20 \<and> length (contextAfter s x) \<le> 20
      \<and> (\<forall>t. preRangeText (Some l) (selRange x) = Inr t \<longrightarrow> suffix (contextBefore s x) t)
      \<and> (\<forall>t. postRangeText (Some l) (selRange x) = Inr t \<longrightarrow> prefix (contextAfter s x) t))
     \<and> (\<forall>l' cont.
           surroundContents (Elem (Some (nextHandle s)) ''pdf-highlight'') l (selRange x)
             = Some (l', cont) \<longrightarrow>
           storesHighlight s (highlightSelection clr now (Some x) s) x (jsTrim (selString x))
             (if clr = [] then currentHighlightColor s else clr) now)
     \<and> (\<forall>l' cont.
           surroundContents (Elem (Some (nextHandle s)) ''pdf-highlight'') l (selRange x) = None
           \<and> extractAndInsert (Elem (Some (nextHandle s)) ''pdf-highlight'') l (selRange x)
               = Some (l', cont) \<longrightarrow>
           storesHighlight s (highlightSelection clr now (Some x) s) x (textContent cont)
             (if clr = [] then currentHighlightColor s else clr) now)
     \<and> (\<forall>l' cont.
           surroundContents (Elem (Some (nextHandle s)) (''pdf-annotation pdf-'' @ annotationClass ty))
             l (selRange x) = Some (l', cont) \<longrightarrow>
           storesAnnotation s (annotateSelection ty clr now (Some x) s) x ty (jsTrim (selString x))
             (if clr = [] then currentHighlightColor s else clr) now)
     \<and> (\<forall>l' cont.
           surroundContents (Elem (Some (nextHandle s)) (''pdf-annotation pdf-'' @ annotationClass ty))
             l (selRange x) = None
           \<and> extractAndInsert (Elem (Some (nextHandle s)) (''pdf-annotation pdf-'' @ annotationClass ty))
               l (selRange x) = Some (l', cont) \<longrightarrow>
           storesAnnotation s (annotateSelection ty clr now (Some x) s) x ty (textContent cont)
             (if clr = [] then currentHighlightColor s else clr) now)
     \<and> (\<forall>l' cont.
           surroundContents (commentSpan (nextHandle s)) l (selRange x) = Some (l', cont) \<longrightarrow>
           storesComment s (addCommentToSelection body clr now (Some x) s) x body
             (jsTrim (selString x)) (if clr = [] then ''#FFE4B5'' else clr) now)
     \<and> savedHighlights (onDidReceiveMessage (HighlightAdded c n d) h) = savedHighlights h @ [d]
     \<and> savedAnnotations (onDidReceiveMessage (AnnotationAdded ty c n da) h) = savedAnnotations h @ [da]
     \<and> savedComments (onDidReceiveMessage (CommentAdded c n dc) h) = savedComments h @ [dc]"
  proof (intro conjI allI impI; (elim conjE)?)
    show "length (contextBefore s x) \<le> 20" "length (contextAfter s x) \<le> 20"
      using context_bounds[of s x] by simp_all
    show "suffix (contextBefore s x) t" if "preRangeText (Some l) (selRange x) = Inr t" for t
      using context_bounds[of s x] that unfolding l by blast
    show "prefix (contextAfter s x) t" if "postRangeText (Some l) (selRange x) = Inr t" for t
      using context_bounds[of s x] that unfolding l by blast
  qed (rule highlight_direct[OF t l] highlight_fallback[OF t l] annotation_direct[OF t l]
        annotation_fallback[OF t l] comment_direct[OF t l] host_appends; assumption?)+
qed

lemmas capture_eval =
  highlightSelection_def commitHighlight_def textLayer_def setTextLayer_def
  surroundContents_def extractAndInsert_def wrapHere_def postMessage_def
  getTextBefore_def getTextAfter_def preRangeText_def postRangeText_def siblingsOf_def
  textContent_def jsSliceFrom_def jsSlice_def relIndex_def jsTrim_def isWhiteSpace_def
  fooBarView_def barSelection_def bazSelection_def Let_def

theorem capture_stores_anchor_witness:
  "jsTrim (selString bazSelection) = ''baz''
   \<and> storesHighlight fooBarView (highlightSelection [] 5 (Some bazSelection) fooBarView)
        bazSelection ''baz'' ''#FFFF00'' 5
   \<and> contextBefore fooBarView bazSelection = ''bar ''
   \<and> contextAfter fooBarView bazSelection = []
   \<and> storesComment fooBarView (addCommentToSelection ''check'' [] 5 (Some bazSelection) fooBarView)
        bazSelection ''check'' ''baz'' ''#FFE4B5'' 5
   \<and> storesAnnotation fooBarView (annotateSelection Squiggly [] 5 (Some barSelection) fooBarView)
        barSelection Squiggly '' bar'' ''#FFFF00'' 5"
proof -
  let ?l = "[Elem None ''span'' [Text ''foo ''], Elem None ''span'' [Text ''bar baz'']]"
  have t1: "jsTrim (selString bazSelection) = ''baz''" by (simp add: capture_eval)
  have t2: "jsTrim (selString barSelection) = ''bar''" by (simp add: capture_eval)
  have l1: "textLayer fooBarView (selPage bazSelection) = Some ?l" by (simp add: capture_eval)
  have l2: "textLayer fooBarView (selPage barSelection) = Some ?l" by (simp add: capture_eval)
  have c: "currentHighlightColor fooBarView = ''#FFFF00''" by (simp add: fooBarView_def)
  have s1: "surroundContents (Elem (Some (nextHandle fooBarView)) ''pdf-highlight'') ?l
              (selRange bazSelection)
            = Some ([Elem None ''span'' [Text ''foo ''],
                     Elem None ''span'' [Text ''bar '', Elem (Some 0) ''pdf-highlight'' [Text ''baz''],
                       Text []]], [Text ''baz''])"
    by (simp add: capture_eval)
  have s2: "surroundContents (commentSpan (nextHandle fooBarView)) ?l (selRange bazSelection)
            = Some ([Elem None ''span'' [Text ''foo ''],
                     Elem None ''span'' [Text ''bar '', commentSpan 0 [Text ''baz''], Text []]],
                    [Text ''baz''])"
    by (simp add: capture_eval)
  have s3: "surroundContents
              (Elem (Some (nextHandle fooBarView)) (''pdf-annotation pdf-'' @ annotationClass Squiggly))
              ?l (selRange barSelection) = None
            \<and> extractAndInsert
              (Elem (Some (nextHandle fooBarView)) (''pdf-annotation pdf-'' @ annotationClass Squiggly))
              ?l (selRange barSelection)
              = Some ([Elem None ''span'' [Text ''foo''],
                       Elem (Some 0) (''pdf-annotation pdf-'' @ annotationClass Squiggly)
                         [Elem None ''span'' [Text '' ''], Elem None ''span'' [Text ''bar'']],
                       Elem None ''span'' [Text '' baz'']],
                      [Elem None ''span'' [Text '' ''], Elem None ''span'' [Text ''bar'']])"
    by (simp add: capture_eval)
  have tc: "textContent [Elem None ''span'' [Text '' ''], Elem None ''span'' [Text ''bar'']] = '' bar''"
    by (simp add: textContent_def)
  have cb: "contextBefore fooBarView bazSelection = ''bar ''"
    "contextAfter fooBarView bazSelection = []"
    by (simp_all add: contextBefore_def contextAfter_def capture_eval)
  from capture_stores_anchor[of bazSelection fooBarView ?l "[]" 5 Squiggly "''check''"] t1 l1 s1 s2
  have a: "storesHighlight fooBarView (highlightSelection [] 5 (Some bazSelection) fooBarView)
        bazSelection ''baz'' ''#FFFF00'' 5"
    and b: "storesComment fooBarView
        (addCommentToSelection ''check'' [] 5 (Some bazSelection) fooBarView)
        bazSelection ''check'' ''baz'' ''#FFE4B5'' 5"
    by (simp_all add: c)
  from capture_stores_anchor[of barSelection fooBarView ?l "[]" 5 Squiggly "''check''"] t2 l2 s3
  have d: "storesAnnotation fooBarView (annotateSelection Squiggly [] 5 (Some barSelection) fooBarView)
        barSelection Squiggly '' bar'' ''#FFFF00'' 5"
    by (simp add: c tc)
  show ?thesis using t1 a b d cb by simp
qed

text \<open>
  Claim C8 as stated fails on the second attempt of \<open>highlightSelection\<close>. The selection
  \<open> bar\<close> starts in one span and ends in the next, so \<open>surroundContents\<close> throws; the
  contents are then moved into the marker and the stored text is \<open>span.textContent\<close>,
  which keeps the leading blank, while the trimmed selection is \<open>bar\<close>.
\<close>

theorem capture_fallback_counterexample:
  "highlights (highlightSelection [] 5 (Some barSelection) fooBarView) =
     [\<lparr>atext = '' bar'', color = ''#FFFF00'', page = 1, textBefore = ''foo'',
       textAfter = '' baz'', element = 0\<rparr>]
   \<and> outbox (highlightSelection [] 5 (Some barSelection) fooBarView) =
     [HighlightAdded ''#FFFF00'' 1
        \<lparr>atext = '' bar'', color = ''#FFFF00'', page = 1, textBefore = ''foo'',
         textAfter = '' baz'', timestamp = 5\<rparr>]
   \<and> jsTrim (selString barSelection) = ''bar''"
  by (simp add: capture_eval)

section \<open>Detaching markers\<close>

lemma hasHandle_append: "hasHandle h (xs @ ys) = (hasHandle h xs \<or> hasHandle h ys)"
  by (induction h xs rule: hasHandle.induct) auto

lemma unwrap_removes: "\<not> hasHandle h (unwrap h ns)"
  by (induction h ns rule: unwrap.induct) (auto simp: hasHandle_append)

lemma unwrap_other: "h' \<noteq> h \<Longrightarrow> hasHandle h' (unwrap h ns) = hasHandle h' ns"
  by (induction h ns rule: unwrap.induct) (auto simp: hasHandle_append)

lemma hasHandle_unwrap: "hasHandle h' (unwrap h ns) = (h' \<noteq> h \<and> hasHandle h' ns)"
  using unwrap_removes[of h ns] unwrap_other[of h' h ns] by blast

lemma below_unwrapBelow: "below h' (unwrapBelow h n) = (h' \<noteq> h \<and> below h' n)"
  by (cases n) (simp_all add: hasHandle_unwrap)

lemma unwrap_id: "\<not> hasHandle h ns \<Longrightarrow> unwrap h ns = ns"
  by (induction h ns rule: unwrap.induct) auto

lemma unwrapMarked_append: "unwrapMarked hs (xs @ ys) = unwrapMarked hs xs @ unwrapMarked hs ys"
  by (induction hs xs rule: unwrapMarked.induct) auto

lemma unwrapMarked_Nil: "unwrapMarked [] ns = ns"
  by (induction "[] :: nat list" ns rule: unwrapMarked.induct) auto

lemma unwrapMarked_unwrap: "unwrapMarked hs (unwrap h ns) = unwrapMarked (h # hs) ns"
  by (induction h ns rule: unwrap.induct) (auto simp: unwrapMarked_append)

lemma textNodes_unwrapMarked: "textNodes (unwrapMarked hs ns) = textNodes ns"
  by (induction hs ns rule: unwrapMarked.induct) (auto simp: textNodes_append)

lemma Some_eq_map_option: "Some ns = map_option f a \<longleftrightarrow> (\<exists>z. a = Some z \<and> ns = f z)"
  by (cases a) auto

lemma Some_in_map_option:
  "Some ns \<in> set (map (map_option f) ps) \<longleftrightarrow> (\<exists>m. Some m \<in> set ps \<and> ns = f m)"
  by (auto simp: image_iff Some_eq_map_option)

lemma hasParentNode_iff:
  "hasParentNode s h \<longleftrightarrow>
     (\<exists>ns. Some ns \<in> set (pages s) \<and> hasHandle h ns) \<or> (\<exists>n\<in>set (detached s). below h n)"
  by (auto simp: hasParentNode_def list_ex_iff split: option.splits)

lemma hasParentNode_frame [simp]:
  "hasParentNode (s\<lparr>highlights := hs\<rparr>) = hasParentNode s"
  "hasParentNode (s\<lparr>currentHighlightIndex := i\<rparr>) = hasParentNode s"
  "hasParentNode (s\<lparr>outbox := ob\<rparr>) = hasParentNode s"
  by (simp_all add: hasParentNode_def fun_eq_iff)

text \<open>
  Unwrapping an element takes it out of every tree, whether it had a parent or not
  (an element without a parent occurs in no tree), and leaves all other elements
  where they are.
\<close>

lemma pages_unwrapElement:
  "pages (unwrapElement h s) = map (map_option (unwrap h)) (pages s)"
proof (cases "hasParentNode s h")
  case True
  then show ?thesis by (simp add: unwrapElement_def)
next
  case False
  have "map_option (unwrap h) l = l" if m: "l \<in> set (pages s)" for l
  proof (cases l)
    case None
    then show ?thesis by simp
  next
    case (Some ns)
    with m False have "\<not> hasHandle h ns" by (auto simp: hasParentNode_iff)
    with Some show ?thesis by (simp add: unwrap_id)
  qed
  then have "map (map_option (unwrap h)) (pages s) = pages s" by (simp add: map_idI)
  with False show ?thesis by (simp add: unwrapElement_def)
qed

lemma hasParentNode_unwrapElement:
  "hasParentNode (unwrapElement h s) h' = (h' \<noteq> h \<and> hasParentNode s h')"
proof (cases "hasParentNode s h")
  case False
  then show ?thesis by (auto simp: unwrapElement_def)
next
  case True
  have p: "(\<exists>ns. Some ns \<in> set (map (map_option (unwrap h)) (pages s)) \<and> hasHandle h' ns)
        \<longleftrightarrow> h' \<noteq> h \<and> (\<exists>ns. Some ns \<in> set (pages s) \<and> hasHandle h' ns)"
    unfolding Some_in_map_option by (auto simp: hasHandle_unwrap)
  have d: "(\<exists>n\<in>set (map (unwrapBelow h) (detached s)). below h' n)
        \<longleftrightarrow> h' \<noteq> h \<and> (\<exists>n\<in>set (detached s). below h' n)"
    by (auto simp: below_unwrapBelow)
  from True have e: "unwrapElement h s =
      s\<lparr>pages := map (map_option (unwrap h)) (pages s),
        detached := map (unwrapBelow h) (detached s)\<rparr>"
    by (simp add: unwrapElement_def)
  have "hasParentNode (unwrapElement h s) h' \<longleftrightarrow>
      (\<exists>ns. Some ns \<in> set (map (map_option (unwrap h)) (pages s)) \<and> hasHandle h' ns)
      \<or> (\<exists>n\<in>set (map (unwrapBelow h) (detached s)). below h' n)"
    unfolding e hasParentNode_iff by (simp del: set_map)
  also have "\<dots> \<longleftrightarrow> h' \<noteq> h \<and> hasParentNode s h'"
    unfolding p d hasParentNode_iff by blast
  finally show ?thesis .
qed

lemma unwrapElement_frame:
  "\<exists>P D. unwrapElement h s = s\<lparr>pages := P, detached := D\<rparr>"
proof (cases "hasParentNode s h")
  case True then show ?thesis by (auto simp: unwrapElement_def)
next
  case False
  have "s = s\<lparr>pages := pages s, detached := detached s\<rparr>" by simp
  with False show ?thesis unfolding unwrapElement_def by (metis (full_types))
qed

lemma unwrapAll_frame:
  "unwrapAll hs s n = (s1, n1) \<Longrightarrow> \<exists>P D. s1 = s\<lparr>pages := P, detached := D\<rparr>"
proof (induction hs arbitrary: s n)
  case Nil
  have "s = s\<lparr>pages := pages s, detached := detached s\<rparr>" by simp
  with Nil show ?case by (metis (full_types) unwrapAll.simps(1) prod.inject)
next
  case (Cons e hs)
  show ?case
  proof (cases "hasParentNode s (element e)")
    case True
    with Cons.prems have "unwrapAll hs (unwrapElement (element e) s) (Suc n) = (s1, n1)" by simp
    from Cons.IH[OF this] obtain P D where
      "s1 = (unwrapElement (element e) s)\<lparr>pages := P, detached := D\<rparr>" by blast
    moreover from unwrapElement_frame[of "element e" s] obtain P0 D0 where
      "unwrapElement (element e) s = s\<lparr>pages := P0, detached := D0\<rparr>" by blast
    ultimately have "s1 = s\<lparr>pages := P, detached := D\<rparr>" by simp
    then show ?thesis by blast
  next
    case False
    with Cons.prems have "unwrapAll hs s n = (s1, n1)" by simp
    from Cons.IH[OF this] show ?thesis .
  qed
qed

lemma unwrapAll_step:
  "unwrapAll (e # hs) s n =
     unwrapAll hs (unwrapElement (element e) s) (if hasParentNode s (element e) then Suc n else n)"
  by (simp add: unwrapElement_def)

lemma unwrapAll_pages:
  "unwrapAll hs s n = (s1, n1) \<Longrightarrow>
   pages s1 = map (map_option (unwrapMarked (map element hs))) (pages s)"
proof (induction hs arbitrary: s n)
  case Nil
  then show ?case by (simp add: unwrapMarked_Nil option.map_ident map_idI)
next
  case (Cons e hs)
  from Cons.prems have
    "unwrapAll hs (unwrapElement (element e) s) (if hasParentNode s (element e) then Suc n else n)
       = (s1, n1)"
    unfolding unwrapAll_step .
  from Cons.IH[OF this] show ?case
    by (simp add: pages_unwrapElement option.map_comp comp_def unwrapMarked_unwrap)
qed

lemma unwrapAll_parents:
  "unwrapAll hs s n = (s1, n1) \<Longrightarrow>
   hasParentNode s1 h' = (h' \<notin> element ` set hs \<and> hasParentNode s h')"
proof (induction hs arbitrary: s n)
  case Nil
  then show ?case by simp
next
  case (Cons e hs)
  from Cons.prems have
    "unwrapAll hs (unwrapElement (element e) s) (if hasParentNode s (element e) then Suc n else n)
       = (s1, n1)"
    unfolding unwrapAll_step .
  from Cons.IH[OF this] show ?case
    by (auto simp: hasParentNode_unwrapElement)
qed

lemma length_remdups_insert:
  "x \<notin> set (filter (\<lambda>y. y \<noteq> x) xs) \<and>
   length (remdups (x # xs)) = Suc (length (remdups (filter (\<lambda>y. y \<noteq> x) xs)))"
proof -
  have n: "x \<notin> set (filter (\<lambda>y. y \<noteq> x) xs)" by simp
  have "set (x # xs) = insert x (set (filter (\<lambda>y. y \<noteq> x) xs))" by auto
  then have "card (set (x # xs)) = card (insert x (set (filter (\<lambda>y. y \<noteq> x) xs)))"
    by (rule arg_cong)
  also have "\<dots> = Suc (card (set (filter (\<lambda>y. y \<noteq> x) xs)))"
    by (rule card_insert_disjoint[OF finite_set n])
  finally have "length (remdups (x # xs)) = Suc (length (remdups (filter (\<lambda>y. y \<noteq> x) xs)))"
    unfolding length_remdups_card_conv .
  with n show ?thesis by blast
qed

lemma unwrapAll_count:
  "unwrapAll hs s n = (s1, n1) \<Longrightarrow>
   n1 = n + length (remdups (filter (hasParentNode s) (map element hs)))"
proof (induction hs arbitrary: s n)
  case Nil
  then show ?case by simp
next
  case (Cons e hs)
  let ?h = "element e"
  show ?case
  proof (cases "hasParentNode s ?h")
    case True
    with Cons.prems have "unwrapAll hs (unwrapElement ?h s) (Suc n) = (s1, n1)" by simp
    from Cons.IH[OF this]
    have "n1 = Suc n + length (remdups (filter (hasParentNode (unwrapElement ?h s)) (map element hs)))" .
    moreover have "filter (hasParentNode (unwrapElement ?h s)) (map element hs)
        = filter (\<lambda>y. y \<noteq> ?h) (filter (hasParentNode s) (map element hs))"
      unfolding filter_filter
      by (rule filter_cong) (auto simp: hasParentNode_unwrapElement)
    ultimately show ?thesis
      using True length_remdups_insert[of ?h "filter (hasParentNode s) (map element hs)"]
      by (simp del: remdups.simps)
  next
    case False
    with Cons.prems have "unwrapAll hs s n = (s1, n1)" by simp
    from Cons.IH[OF this] False show ?thesis by simp
  qed
qed

lemmas host_eval =
  newPdfPreview_def loadHighlights_def getHighlightsKey_def saveHighlights_def
  addHighlightToStorage_def removeHighlightFromStorage_def clearHighlightsStorage_def
  addAnnotationToStorage_def addCommentToStorage_def addStickyNoteToStorage_def
  addDrawingToStorage_def saveAllAnnotations_def saveDrawings_def saveStickyNotes_def
  saveComments_def saveAnnotations_def saveHighlightsStorage_def

section \<open>Clearing\<close>

lemma clearAllHighlights_props:
  "highlights (clearAllHighlights s) = []
   \<and> currentHighlightIndex (clearAllHighlights s) = - 1
   \<and> pages (clearAllHighlights s)
       = map (map_option (unwrapMarked (map element (highlights s)))) (pages s)
   \<and> (\<forall>h'. hasParentNode (clearAllHighlights s) h'
            = (h' \<notin> element ` set (highlights s) \<and> hasParentNode s h'))
   \<and> outbox (clearAllHighlights s) = outbox s @
        [HighlightsCleared
           (length (remdups (filter (hasParentNode s) (map element (highlights s)))))]"
proof -
  obtain s1 k where u: "unwrapAll (highlights s) s 0 = (s1, k)"
    by (cases "unwrapAll (highlights s) s 0")
  from unwrapAll_frame[OF u] obtain P D where s1: "s1 = s\<lparr>pages := P, detached := D\<rparr>" by blast
  have c: "clearAllHighlights s
      = s1\<lparr>highlights := [], currentHighlightIndex := - 1,
           outbox := outbox s1 @ [HighlightsCleared k]\<rparr>"
    by (simp add: clearAllHighlights_def u postMessage_def)
  have "highlights (clearAllHighlights s) = []" by (simp add: c)
  moreover have "currentHighlightIndex (clearAllHighlights s) = - 1" by (simp add: c)
  moreover have "pages (clearAllHighlights s)
       = map (map_option (unwrapMarked (map element (highlights s)))) (pages s)"
    using unwrapAll_pages[OF u] by (simp add: c)
  moreover have "hasParentNode (clearAllHighlights s) h'
            = (h' \<notin> element ` set (highlights s) \<and> hasParentNode s h')" for h'
    using unwrapAll_parents[OF u, of h'] by (simp add: c)
  moreover have "outbox (clearAllHighlights s) = outbox s @
        [HighlightsCleared
           (length (remdups (filter (hasParentNode s) (map element (highlights s)))))]"
    using unwrapAll_count[OF u] by (simp add: c s1)
  ultimately show ?thesis by blast
qed

lemma count_all:
  "distinct hs \<Longrightarrow> \<forall>h\<in>set hs. P h \<Longrightarrow> length (remdups (filter P hs)) = length hs"
  by (simp add: distinct_remdups_id)

text \<open>
  Claim C5, as amended. \<open>clearAllHighlights\<close> empties the whole list of highlights,
  whatever their pages. It unwraps the marker element of every entry, wherever that
  element has a parent node: in each page the elements the entries refer to are
  replaced by their children and nothing else changes, so the text nodes of every page
  are the ones there were before. An element that no entry refers to stays in the
  page; such an element exists when a later capture has cut through a marker, which
  leaves one part of it as a copy. Afterwards no element of a former entry has a
  parent node, and every other element has one exactly if it had one before. The
  \<open>highlightsCleared\<close> message reports the number of elements unwrapped: the number
  of distinct elements of entries that had a parent node, which is the number of
  entries when each entry has its own element and all of them have a parent node.
  A list requested afterwards is empty. On that message the host empties its list
  and writes the empty list under the document's key, so the next session loads no
  highlight. \<open>clearDrawings\<close> removes the drawings of the current page only,
  keeps those of the other pages in their order, and reports the number removed.
\<close>

theorem clear_all:
  "highlights (clearAllHighlights s) = []
   \<and> currentHighlightIndex (clearAllHighlights s) = - 1
   \<and> pages (clearAllHighlights s)
       = map (map_option (unwrapMarked (map element (highlights s)))) (pages s)
   \<and> map (map_option textNodes) (pages (clearAllHighlights s)) = map (map_option textNodes) (pages s)
   \<and> (\<forall>h'. hasParentNode (clearAllHighlights s) h'
            = (h' \<notin> element ` set (highlights s) \<and> hasParentNode s h'))
   \<and> outbox (clearAllHighlights s) = outbox s @
        [HighlightsCleared
           (length (remdups (filter (hasParentNode s) (map element (highlights s)))))]
   \<and> (distinct (map element (highlights s)) \<and> (\<forall>e\<in>set (highlights s). hasParentNode s (element e))
        \<longrightarrow> outbox (clearAllHighlights s) = outbox s @ [HighlightsCleared (length (highlights s))])
   \<and> last (outbox (getHighlightsSummary (clearAllHighlights s))) = HighlightsSummary [] 0
   \<and> savedHighlights (onDidReceiveMessage (HighlightsCleared n) h) = []
   \<and> globalState (onDidReceiveMessage (HighlightsCleared n) h) (getHighlightsKey h)
        = Some (StoredHighlights [])
   \<and> savedHighlights (newPdfPreview (resource h)
        (globalState (onDidReceiveMessage (HighlightsCleared n) h))) = []
   \<and> drawingAnnotations (clearDrawings s)
        = filter (\<lambda>d. dpage d \<noteq> currentPageNumber s) (drawingAnnotations s)
   \<and> outbox (clearDrawings s) = outbox s @
        [DrawingsCleared (length (filter (\<lambda>d. dpage d = currentPageNumber s) (drawingAnnotations s)))]"
proof -
  note p = clearAllHighlights_props[of s]
  have t: "map (map_option textNodes) (pages (clearAllHighlights s)) = map (map_option textNodes) (pages s)"
    using p by (simp add: option.map_comp comp_def textNodes_unwrapMarked)
  have a: "outbox (clearAllHighlights s) = outbox s @ [HighlightsCleared (length (highlights s))]"
    if "distinct (map element (highlights s))" "\<forall>e\<in>set (highlights s). hasParentNode s (element e)"
    using p that count_all[of "map element (highlights s)" "hasParentNode s"] by simp
  have d: "drawingAnnotations (clearDrawings s)
        = filter (\<lambda>d. dpage d \<noteq> currentPageNumber s) (drawingAnnotations s)
   \<and> outbox (clearDrawings s) = outbox s @
        [DrawingsCleared (length (filter (\<lambda>d. dpage d = currentPageNumber s) (drawingAnnotations s)))]"
    by (simp add: clearDrawings_def Let_def postMessage_def split: option.splits)
  have hst: "savedHighlights (onDidReceiveMessage (HighlightsCleared n) h) = []
   \<and> globalState (onDidReceiveMessage (HighlightsCleared n) h) (getHighlightsKey h)
        = Some (StoredHighlights [])
   \<and> savedHighlights (newPdfPreview (resource h)
        (globalState (onDidReceiveMessage (HighlightsCleared n) h))) = []"
    by (simp add: host_eval)
  have g: "last (outbox (getHighlightsSummary (clearAllHighlights s))) = HighlightsSummary [] 0"
    using p by (simp add: getHighlightsSummary_def postMessage_def)
  show ?thesis using p t a d hst g by blast
qed

lemma markedView_eq:
  "markedView =
     helloView\<lparr>pages := [Some [Elem None ''span''
        [Text [], Elem (Some 0) ''pdf-highlight restored-highlight'' [Text ''hello''],
         Text '' world'']]],
       highlights := [\<lparr>atext = ''hello'', color = ''#FFFF00'', page = 1, textBefore = [],
         textAfter = '' world'', element = 0\<rparr>], nextHandle := 1\<rparr>"
  by (simp add: markedView_def restore_eval)

lemma cutView_eq:
  "pages cutView =
     [Some [Elem None ''span''
        [Text [], Elem (Some 0) ''pdf-highlight restored-highlight'' [Text ''he''],
         Elem (Some 1) ''pdf-highlight''
           [Elem None ''pdf-highlight restored-highlight'' [Text ''llo''], Text '' wo''],
         Text ''rld'']]]"
  "map element (highlights cutView) = [0, 1]"
  "map atext (highlights cutView) = [''hello'', ''llo wo'']"
  "outbox cutView =
     [HighlightAdded ''#FFFF00'' 2
        \<lparr>atext = ''llo wo'', color = ''#FFFF00'', page = 1, textBefore = ''he'',
         textAfter = ''rld'', timestamp = 5\<rparr>]"
  "detached cutView = []"
  by (simp_all add: cutView_def cutSelection_def markedView_eq helloView_def
      highlightSelection_def commitHighlight_def textLayer_def setTextLayer_def
      surroundContents_def extractAndInsert_def wrapHere_def postMessage_def
      getTextBefore_def getTextAfter_def preRangeText_def postRangeText_def siblingsOf_def
      textContent_def jsSliceFrom_def jsSlice_def relIndex_def jsTrim_def isWhiteSpace_def Let_def)

theorem clear_all_witness:
  "map element (highlights markedView) = [0]
   \<and> hasParentNode markedView 0
   \<and> \<not> hasParentNode (clearAllHighlights markedView) 0
   \<and> highlights (clearAllHighlights markedView) = []
   \<and> outbox (clearAllHighlights markedView) = [HighlightsCleared 1]
   \<and> pages (clearAllHighlights markedView)
       = [Some [Elem None ''span'' [Text [], Text ''hello'', Text '' world'']]]
   \<and> pages (clearAllHighlights cutView)
       = [Some [Elem None ''span''
            [Text [], Text ''he'', Elem None ''pdf-highlight restored-highlight'' [Text ''llo''],
             Text '' wo'', Text ''rld'']]]
   \<and> outbox (clearAllHighlights cutView) = outbox cutView @ [HighlightsCleared 2]
   \<and> \<not> list_ex (\<lambda>l. case l of None \<Rightarrow> False | Some ns \<Rightarrow> hasHandle 0 ns) (pages rerenderedView)
   \<and> hasParentNode rerenderedView 0
   \<and> outbox (clearAllHighlights rerenderedView) = [HighlightsCleared 1]
   \<and> pages (clearAllHighlights rerenderedView) = pages rerenderedView
   \<and> \<not> hasParentNode (clearAllHighlights rerenderedView) 0"
proof -
  have a: "hasParentNode markedView 0" by (simp add: markedView_eq hasParentNode_def helloView_def)
  have h: "highlights markedView = [\<lparr>atext = ''hello'', color = ''#FFFF00'', page = 1, textBefore = [],
         textAfter = '' world'', element = 0\<rparr>]" by (simp add: markedView_eq)
  have o: "outbox markedView = []" by (simp add: markedView_eq helloView_def)
  have p: "pages markedView = [Some [Elem None ''span''
        [Text [], Elem (Some 0) ''pdf-highlight restored-highlight'' [Text ''hello''],
         Text '' world'']]]" by (simp add: markedView_eq)
  have c: "hasParentNode cutView 0" "hasParentNode cutView 1"
    by (simp_all add: hasParentNode_def cutView_eq)
  have hc: "element ` set (highlights cutView) = {0, 1}"
    using cutView_eq(2) by (metis list.set_map list.simps(15) empty_set)
  have r: "highlights rerenderedView = highlights markedView"
    "outbox rerenderedView = []"
    "pages rerenderedView = [Some [Elem None ''span'' [Text ''hello world'']]]"
    "detached rerenderedView =
       [Elem None ''textLayer'' [Elem None ''span''
          [Text [], Elem (Some 0) ''pdf-highlight restored-highlight'' [Text ''hello''],
           Text '' world'']]]"
    by (simp_all add: rerenderedView_def markedView_eq helloView_def)
  have ra: "hasParentNode rerenderedView 0" by (simp add: hasParentNode_def r)
  from clear_all[of markedView 1 drawHost] a h o p
  have m: "\<not> hasParentNode (clearAllHighlights markedView) 0"
    "highlights (clearAllHighlights markedView) = []"
    "outbox (clearAllHighlights markedView) = [HighlightsCleared 1]"
    "pages (clearAllHighlights markedView)
       = [Some [Elem None ''span'' [Text [], Text ''hello'', Text '' world'']]]"
    by simp_all
  from clear_all[of cutView 1 drawHost] c
  have k: "pages (clearAllHighlights cutView)
       = [Some [Elem None ''span''
            [Text [], Text ''he'', Elem None ''pdf-highlight restored-highlight'' [Text ''llo''],
             Text '' wo'', Text ''rld'']]]"
    "outbox (clearAllHighlights cutView) = outbox cutView @ [HighlightsCleared 2]"
    by (simp_all add: cutView_eq)
  from clear_all[of rerenderedView 1 drawHost] ra
  have d: "outbox (clearAllHighlights rerenderedView) = [HighlightsCleared 1]"
    "pages (clearAllHighlights rerenderedView) = pages rerenderedView"
    "\<not> hasParentNode (clearAllHighlights rerenderedView) 0"
    by (simp_all add: r h)
  show ?thesis using a m k d ra by (simp add: r h)
qed

text \<open>
  Claim C5 as stated fails for drawings. With one rectangle on page 1 and one on
  page 2, page 1 being current, \<open>clearDrawings\<close> keeps the rectangle of page 2 and
  reports 1; and the host, on \<open>drawingsCleared\<close>, only shows a notification: its list
  and the persisted list still hold both rectangles.
\<close>

theorem clear_drawings_counterexample:
  "drawingAnnotations drawView = [rectOn 1 1, rectOn 2 2]
   \<and> currentPageNumber drawView = 1
   \<and> drawingAnnotations (clearDrawings drawView) = [rectOn 2 2]
   \<and> outbox (clearDrawings drawView) = [DrawingsCleared 1]
   \<and> savedDrawings drawHost = [rectOn 1 1, rectOn 2 2]
   \<and> savedDrawings (onDidReceiveMessage (DrawingsCleared 1) drawHost) = [rectOn 1 1, rectOn 2 2]
   \<and> globalState (onDidReceiveMessage (DrawingsCleared 1) drawHost) ''pdf.drawings.file:///a.pdf''
       = Some (StoredDrawings [rectOn 1 1, rectOn 2 2])"
  by (simp add: drawView_def twoLineView_def clearDrawings_def postMessage_def rectOn_def
      drawHost_def host_eval)

section \<open>Deleting one entry\<close>

lemma reopenedHost_saved:
  "savedHighlights reopenedHost = [loremAnchor, helloAnchor]"
  "resource reopenedHost = ''file:///a.pdf''"
  by (simp_all add: reopenedHost_def host_eval)

lemma reopenedView_eq:
  "reopenedView =
     twoLineView\<lparr>pages := [Some [Elem None ''span'' [Text ''abc''],
                     Elem None ''span''
                       [Text ''say '',
                        Elem (Some 0) ''pdf-highlight restored-highlight'' [Text ''hello''],
                        Text '', hello''],
                     Elem None ''span'' [Text ''hello again'']], None],
       highlights := [\<lparr>atext = ''hello'', color = ''#FFFF00'', page = 1, textBefore = [],
         textAfter = '' world'', element = 0\<rparr>], nextHandle := 1\<rparr>"
  by (simp add: reopenedView_def reopenedHost_saved restore_eval loremAnchor_def twoLineView_def)

text \<open>
  Claim C6 at a failing input. The store of \<open>file:///a.pdf\<close> holds two highlights,
  \<open>Lorem ipsum\<close> on page 3 and \<open>hello\<close> on page 1, and the document, which now has two
  pages, is opened again. The host loads both anchors and sends them to the view;
  the view locates \<open>hello\<close> only, so its list has the single entry \<open>hello\<close>, at
  index 0. The user deletes that highlight: \<open>removeHighlight(0)\<close> unwraps its marker,
  empties the view's list and sends index 0 to the host, and
  \<open>removeHighlightFromStorage(0)\<close> removes what its own list holds at index 0, which
  is \<open>Lorem ipsum\<close>. The persisted list is then \<open>hello\<close> alone: the highlight the user
  deleted is still stored, and the next session loads it again, while an anchor the
  user never touched is gone. (The view's list lacks a stored anchor in the same way
  when the anchor's page, here page 2, is not rendered at the time of the restore.)
  For sticky notes the host has no removal at all. A note that the host has stored
  is closed in the view: \<open>deleteStickyNote(0)\<close> takes it out of the page and out of
  the view's list and posts \<open>stickyNoteDeleted\<close>, on which the host leaves its list
  and the store as they are, so the persisted list still holds the note.
\<close>

theorem removal_out_of_step_with_store:
  "savedHighlights reopenedHost = [loremAnchor, helloAnchor]
   \<and> map atext (highlights reopenedView) = [''hello'']
   \<and> map atext (highlights (restoreHighlights [loremAnchor\<lparr>page := 2\<rparr>, helloAnchor] twoLineView))
       = [''hello'']
   \<and> highlights (removeHighlight 0 reopenedView) = []
   \<and> pages (removeHighlight 0 reopenedView) =
       [Some [Elem None ''span'' [Text ''abc''],
              Elem None ''span'' [Text ''say '', Text ''hello'', Text '', hello''],
              Elem None ''span'' [Text ''hello again'']], None]
   \<and> outbox (removeHighlight 0 reopenedView) =
       outbox reopenedView @ [HighlightRemovedWithData 0, HighlightRemoved 0]
   \<and> savedHighlights (onDidReceiveMessage (HighlightRemovedWithData 0) reopenedHost) = [helloAnchor]
   \<and> globalState (onDidReceiveMessage (HighlightRemovedWithData 0) reopenedHost)
        ''pdf-highlights-file:///a.pdf'' = Some (StoredHighlights [helloAnchor])
   \<and> savedHighlights (newPdfPreview ''file:///a.pdf''
        (globalState (onDidReceiveMessage (HighlightRemovedWithData 0) reopenedHost))) = [helloAnchor]
   \<and> savedStickyNotes noteHost = [todoNote]
   \<and> map content (stickyNotes noteView) = [''todo'']
   \<and> stickyNotes (deleteStickyNote 0 noteView) = []
   \<and> noteElements (deleteStickyNote 0 noteView) = []
   \<and> outbox (deleteStickyNote 0 noteView) = [StickyNoteDeleted 0]
   \<and> savedStickyNotes (onDidReceiveMessage (StickyNoteDeleted 0) noteHost) = [todoNote]
   \<and> globalState (onDidReceiveMessage (StickyNoteDeleted 0) noteHost)
        ''pdf.stickyNotes.file:///a.pdf'' = Some (StoredStickyNotes [todoNote])"
  by (simp add: reopenedHost_saved reopenedView_eq host_eval splice1_def removeHighlight_def
      unwrapElement_def hasParentNode_def postMessage_def twoLineView_def Let_def
      restoreHighlights_def restoreSingleHighlight_def restoreSingleHighlightSearch_def
      textLayer_def setTextLayer_def surroundContents_def wrapHere_def restoredHighlightSpan_def
      setCurrentPageNumber_def loremAnchor_def helloAnchor_def
      noteHost_def noteView_def helloView_def deleteStickyNote_def)

section \<open>Reopening a document\<close>

text \<open>
  Claim C2 at a failing input. An underline added in one session is written under
  the key \<open>pdf.annotations.file:///a.pdf\<close>, but the constructor of the next session for
  the same document calls \<open>loadHighlights\<close> only: the list of annotations starts
  empty, although \<open>loadAllAnnotations\<close>, which nothing calls, would have restored it.
  The same holds for drawings; highlights are reloaded.
\<close>

theorem annotations_not_reloaded:
  "savedAnnotations underlineSession = [helloUnderline]
   \<and> globalState underlineSession ''pdf.annotations.file:///a.pdf''
       = Some (StoredAnnotations [helloUnderline])
   \<and> savedAnnotations (newPdfPreview ''file:///a.pdf'' (globalState underlineSession)) = []
   \<and> savedAnnotations (loadAllAnnotations
         (newPdfPreview ''file:///a.pdf'' (globalState underlineSession))) = [helloUnderline]
   \<and> savedDrawings (newPdfPreview ''file:///a.pdf'' (globalState drawHost)) = []
   \<and> savedHighlights (newPdfPreview ''file:///a.pdf'' (globalState threeHost))
       = [greek ''alpha'', greek ''beta'', greek ''gamma'']"
  by (simp add: underlineSession_def drawHost_def threeHost_def host_eval loadAllAnnotations_def
      loadAnnotations_def loadComments_def loadStickyNotes_def loadDrawings_def)

end
